theory Spec2Isabelle
  imports Complex_Main "HOL-Library.Word" "HOL-Library.Sublist"
begin

section \<open>The wasm VM API service (vms/wasmvm/service.go)\<close>

text \<open>
  The service turns untyped JSON-RPC requests into transactions and appends them to the
  VM's mempool. This theory embeds \<open>ArgAPI.toFnArg\<close>, \<open>InvokeArgs.validate\<close>,
  \<open>InvokeArgs.getByteArgs\<close>, \<open>Service.Invoke\<close>, \<open>Service.CreateContract\<close> and
  \<open>Service.GetTx\<close>. Code the file calls but does not contain (the key factory, the
  transaction builders, the codecs, the Go runtime's implementation-dependent conversions)
  is a field of the record \<open>env\<close>, and every theorem holds for every \<open>env\<close>.
\<close>

subsection \<open>Go values\<close>

type_synonym byte = "8 word"
type_synonym bytes = "byte list"

text \<open>
  A \<open>float32\<close> or \<open>float64\<close> by its mathematical value: every finite float is a
  rational number; the others are the two infinities and NaN. (Negative zero converts to
  the integer 0 like zero, so the two are not distinguished.)
\<close>

datatype float = Finite rat | PosInf | NegInf | NaN

text \<open>
  The dynamic values an \<open>interface{}\<close> can hold, as far as the service distinguishes
  them: the nil interface, the types that \<open>toFnArg\<close> and \<open>getByteArgs\<close> test for, and
  \<open>VOther\<close> for a value of any other dynamic type (\<open>VBool\<close> is the one other type the
  JSON decoder produces). A \<open>map[string]interface{}\<close> is the list of its entries.
\<close>

datatype go_value =
    VNil
  | VBool bool
  | VInt32 "32 word"
  | VInt64 "64 word"
  | VFloat32 float
  | VFloat64 float
  | VString string
  | VSlice "go_value list"
  | VMap "(string \<times> go_value) list"
  | VOther nat

text \<open>
  Modelled from the spec: the package \<open>ids\<close> is not in service.go. The spec has the
  contract identifier as an "opaque 32-byte identifier" and the empty one as
  "zero-valued". So an \<open>ids.ID\<close> is a 256-bit word, \<open>ids.Empty\<close> is zero and
  \<open>Equals\<close> is equality.
\<close>

type_synonym ID = "256 word"

definition ids_Empty :: ID where
  "ids_Empty = 0"

subsection \<open>Errors\<close>

text \<open>
  An error is the call that made it: \<open>errors.New\<close> with its text, or \<open>fmt.Errorf\<close>
  with its format string and operands. The operands are kept as values, not rendered.
\<close>

datatype error =
    ErrorsNew string
  | Errorf string "operand list"
and operand =
    OpValue go_value          \<comment> \<open>an \<open>interface{}\<close> operand\<close>
  | OpArg string go_value     \<comment> \<open>an \<open>ArgAPI\<close> operand: its Type and Value\<close>
  | OpErr error               \<comment> \<open>a non-nil \<open>error\<close> operand\<close>
  | OpNilErr                  \<comment> \<open>a nil \<open>error\<close> operand\<close>
  | OpID ID                   \<comment> \<open>an \<open>ids.ID\<close> operand\<close>

fun message :: "error \<Rightarrow> string" where
  "message (ErrorsNew s) = s"
| "message (Errorf s ops) = s"

fun operands :: "error \<Rightarrow> operand list" where
  "operands (ErrorsNew s) = []"
| "operands (Errorf s ops) = ops"

subsection \<open>Keys and the external collaborators\<close>

text \<open>
  \<open>crypto.PrivateKey\<close> is an interface. \<open>KeySECP256K1R\<close> is a
  \<open>*crypto.PrivateKeySECP256K1R\<close>; \<open>KeyOther\<close> is any other dynamic type, the nil
  interface included.
\<close>

datatype PrivateKeySECP256K1R = SECP256K1R bytes

datatype PrivateKey = KeySECP256K1R PrivateKeySECP256K1R | KeyOther nat

text \<open>
  What service.go calls and does not define. \<open>'tx\<close> is the type of transactions.
  \<^item> \<open>ToLower_unicode\<close>: \<open>strings.ToLower\<close> on a string with a non-ASCII byte
    (\<open>strings.Map unicode.ToLower\<close>);
  \<^item> \<open>cvt32\<close>, \<open>cvt64\<close>: the result of converting a float to \<open>int32\<close>, \<open>int64\<close>
    when the truncated value is not representable (or the float is NaN or infinite); the
    Go specification leaves it to the implementation;
  \<^item> \<open>json_Marshal\<close>: \<open>encoding/json.Marshal\<close>;
  \<^item> \<open>CB58_FromString\<close>: \<open>formatting.CB58.FromString\<close>, giving the decoded
    \<open>Bytes\<close>;
  \<^item> \<open>ToPrivateKey\<close>: \<open>keyFactory.ToPrivateKey\<close>;
  \<^item> \<open>newInvokeTx\<close>, \<open>newCreateContractTx\<close>: the VM's transaction builders;
  \<^item> \<open>tx_ID\<close>: the method \<open>ID()\<close> of a transaction.
\<close>

record 'tx env =
  ToLower_unicode :: "string \<Rightarrow> string"
  cvt32 :: "float \<Rightarrow> 32 word"
  cvt64 :: "float \<Rightarrow> 64 word"
  json_Marshal :: "go_value \<Rightarrow> error + bytes"
  CB58_FromString :: "string \<Rightarrow> error + bytes"
  ToPrivateKey :: "bytes \<Rightarrow> error + PrivateKey"
  newInvokeTx :: "ID \<Rightarrow> string \<Rightarrow> go_value list \<Rightarrow> bytes \<Rightarrow> 64 word
                    \<Rightarrow> PrivateKeySECP256K1R \<Rightarrow> error + 'tx"
  newCreateContractTx :: "bytes \<Rightarrow> 64 word \<Rightarrow> PrivateKeySECP256K1R \<Rightarrow> error + 'tx"
  tx_ID :: "'tx \<Rightarrow> ID"

subsection \<open>strings.ToLower\<close>

text \<open>
  \<open>strings.ToLower\<close> has a path of its own for a string of ASCII bytes only: it adds
  \<open>'a' - 'A'\<close> to every byte from \<open>'A'\<close> to \<open>'Z'\<close>. Any other string goes through
  \<open>unicode.ToLower\<close>.
\<close>

definition isASCII :: "char \<Rightarrow> bool" where
  "isASCII c = ((of_char c :: nat) < 128)"

definition lower_byte :: "char \<Rightarrow> char" where
  "lower_byte c =
     (if (65 :: nat) \<le> of_char c \<and> (of_char c :: nat) \<le> 90
      then char_of ((of_char c :: nat) + 32) else c)"

definition ToLower :: "'tx env \<Rightarrow> string \<Rightarrow> string" where
  "ToLower E s = (if list_all isASCII s then map lower_byte s else ToLower_unicode E s)"

subsection \<open>Conversions between numeric types\<close>

text \<open>
  Go's conversion of a float to an integer type discards the fraction (truncation towards
  zero). When the truncated value does not fit the type, the conversion still succeeds
  and the value is the implementation's.
\<close>

definition trunc :: "rat \<Rightarrow> int" where
  "trunc q = (if 0 \<le> q then \<lfloor>q\<rfloor> else - \<lfloor>- q\<rfloor>)"

definition fits32 :: "int \<Rightarrow> bool" where
  "fits32 i = (- (2 ^ 31) \<le> i \<and> i < 2 ^ 31)"

definition fits64 :: "int \<Rightarrow> bool" where
  "fits64 i = (- (2 ^ 63) \<le> i \<and> i < 2 ^ 63)"

definition float_to_int32 :: "'tx env \<Rightarrow> float \<Rightarrow> 32 word" where
  "float_to_int32 E f =
     (case f of
        Finite q \<Rightarrow> if fits32 (trunc q) then word_of_int (trunc q) else cvt32 E f
      | _ \<Rightarrow> cvt32 E f)"

definition float_to_int64 :: "'tx env \<Rightarrow> float \<Rightarrow> 64 word" where
  "float_to_int64 E f =
     (case f of
        Finite q \<Rightarrow> if fits64 (trunc q) then word_of_int (trunc q) else cvt64 E f
      | _ \<Rightarrow> cvt64 E f)"

text \<open>\<open>int32(x)\<close> of an \<open>int64\<close> keeps the low 32 bits; \<open>int64(x)\<close> of an \<open>int32\<close>
  extends the sign.\<close>

definition int64_to_int32 :: "64 word \<Rightarrow> 32 word" where
  "int64_to_int32 w = ucast w"

definition int32_to_int64 :: "32 word \<Rightarrow> 64 word" where
  "int32_to_int64 w = scast w"

subsection \<open>ArgAPI.toFnArg\<close>

record ArgAPI =
  Type :: string
  Value :: go_value

definition toFnArg :: "'tx env \<Rightarrow> ArgAPI \<Rightarrow> error + go_value" where
  "toFnArg E arg =
     (if ToLower E (Type arg) = ''int32'' then
        (case Value arg of
           VInt32 valInt32 \<Rightarrow> Inr (VInt32 valInt32)
         | VInt64 valInt64 \<Rightarrow> Inr (VInt32 (int64_to_int32 valInt64))
         | VFloat32 valFloat32 \<Rightarrow> Inr (VInt32 (float_to_int32 E valFloat32))
         | VFloat64 valFloat64 \<Rightarrow> Inr (VInt32 (float_to_int32 E valFloat64))
         | _ \<Rightarrow> Inl (Errorf ''value '%v' is not convertible to int32'' [OpValue (Value arg)]))
      else if ToLower E (Type arg) = ''int64'' then
        (case Value arg of
           VInt32 valInt32 \<Rightarrow> Inr (VInt64 (int32_to_int64 valInt32))
         | VInt64 valInt64 \<Rightarrow> Inr (VInt64 valInt64)
         | VFloat32 valFloat32 \<Rightarrow> Inr (VInt64 (float_to_int64 E valFloat32))
         | VFloat64 valFloat64 \<Rightarrow> Inr (VInt64 (float_to_int64 E valFloat64))
         | _ \<Rightarrow> Inl (Errorf ''value '%v' is not convertible to int64'' [OpValue (Value arg)]))
      else Inl (ErrorsNew ''arg type must be one of: int32, int64''))"

subsection \<open>InvokeArgs: validate and getByteArgs\<close>

record InvokeArgs =
  ContractID :: ID
  Function :: string
  SenderKey :: bytes       \<comment> \<open>the \<open>Bytes\<close> of the \<open>formatting.CB58\<close>\<close>
  SenderNonce :: "64 word"
  Args :: "ArgAPI list"
  ByteArgs :: go_value

text \<open>The \<open>switch\<close> takes the first case that holds; \<open>None\<close> is the nil error.\<close>

definition validate :: "InvokeArgs \<Rightarrow> error option" where
  "validate args =
     (if length (SenderKey args) = 0 then
        Some (ErrorsNew ''argument 'senderKey' not provided'')
      else if SenderNonce args = 0 then
        Some (ErrorsNew '''senderNonce' must be at least 1'')
      else if ContractID args = ids_Empty then
        Some (ErrorsNew ''contractID not specified'')
      else if Function args = [] then
        Some (ErrorsNew ''function not specified'')
      else None)"

definition errBagByteArgs :: error where
  "errBagByteArgs =
     ErrorsNew ''expected 'byteArgs' to be JSON or base58 formatted bytes but was neither''"

definition getByteArgs :: "'tx env \<Rightarrow> InvokeArgs \<Rightarrow> error + bytes" where
  "getByteArgs E args =
     (case ByteArgs args of
        VNil \<Rightarrow> Inr []
      | VSlice xs \<Rightarrow>
          (case json_Marshal E (ByteArgs args) of
             Inr bs \<Rightarrow> Inr bs
           | Inl err \<Rightarrow> Inl errBagByteArgs)
      | VMap m \<Rightarrow>
          (case json_Marshal E (ByteArgs args) of
             Inr bs \<Rightarrow> Inr bs
           | Inl err \<Rightarrow> Inl errBagByteArgs)
      | VString asStr \<Rightarrow>
          (case CB58_FromString E asStr of
             Inl err \<Rightarrow>
               Inl (Errorf
                 ''expected 'byteArgs' to be JSON or base58 formatted bytes but was neither'' [])
           | Inr bs \<Rightarrow> Inr bs)
      | _ \<Rightarrow>
          Inl (Errorf
            ''expected 'byteArgs' to be JSON or base58 formatted bytes but was neither'' []))"

subsection \<open>The VM's state\<close>

text \<open>
  Of the VM the service changes the \<open>mempool\<close> and nothing else. \<open>calls\<close> records, in
  order, every call a request makes to the key factory, to a transaction builder and to
  \<open>NotifyBlockReady\<close>, so that "is never invoked" can be stated. The debug log line is
  left out.
\<close>

datatype call =
    CallToPrivateKey bytes
  | CallNewInvokeTx ID string "go_value list" bytes "64 word" PrivateKeySECP256K1R
  | CallNewCreateContractTx bytes "64 word" PrivateKeySECP256K1R
  | CallNotifyBlockReady

record 'tx VM =
  mempool :: "'tx list"
  calls :: "call list"

definition called :: "call \<Rightarrow> 'tx VM \<Rightarrow> 'tx VM" where
  "called c vm = vm\<lparr>calls := calls vm @ [c]\<rparr>"

subsection \<open>Service.Invoke\<close>

text \<open>The loop over \<open>args.Args\<close>: it returns at the first argument that fails.\<close>

fun toFnArgs :: "'tx env \<Rightarrow> ArgAPI list \<Rightarrow> error + go_value list" where
  "toFnArgs E [] = Inr []"
| "toFnArgs E (arg # rest) =
     (case toFnArg E arg of
        Inl err \<Rightarrow>
          Inl (Errorf ''couldn't parse arg '%+v': %s'' [OpArg (Type arg) (Value arg), OpErr err])
      | Inr v \<Rightarrow>
          (case toFnArgs E rest of
             Inl err \<Rightarrow> Inl err
           | Inr vs \<Rightarrow> Inr (v # vs)))"

text \<open>
  The result is the error returned, or the \<open>TxID\<close> written to the response, together
  with the VM afterwards. When the key's dynamic type is wrong the second message is
  made from \<open>err\<close>, which is nil there.
\<close>

definition Invoke :: "'tx env \<Rightarrow> 'tx VM \<Rightarrow> InvokeArgs \<Rightarrow> (error + ID) \<times> 'tx VM" where
  "Invoke E vm args =
     (case validate args of
        Some err \<Rightarrow> (Inl (Errorf ''arguments failed validation: %v'' [OpErr err]), vm)
      | None \<Rightarrow>
     (case toFnArgs E (Args args) of
        Inl err \<Rightarrow> (Inl err, vm)
      | Inr fnArgs \<Rightarrow>
     (case getByteArgs E args of
        Inl err \<Rightarrow> (Inl (Errorf ''couldn't parse 'byteArgs': %v'' [OpErr err]), vm)
      | Inr byteArgs \<Rightarrow>
     (let vm1 = called (CallToPrivateKey (SenderKey args)) vm in
      case ToPrivateKey E (SenderKey args) of
        Inl err \<Rightarrow>
          (Inl (Errorf ''couldn't parse 'privateKey' to a SECP256K1R private key: %v''
                  [OpErr err]), vm1)
      | Inr (KeyOther t) \<Rightarrow>
          (Inl (Errorf ''couldn't parse 'privateKey' to a SECP256K1R private key: %v''
                  [OpNilErr]), vm1)
      | Inr (KeySECP256K1R senderKey) \<Rightarrow>
     (let vm2 = called (CallNewInvokeTx (ContractID args) (Function args) fnArgs byteArgs
                          (SenderNonce args) senderKey) vm1 in
      case newInvokeTx E (ContractID args) (Function args) fnArgs byteArgs
             (SenderNonce args) senderKey of
        Inl err \<Rightarrow> (Inl (Errorf ''couldn't create tx: %s'' [OpErr err]), vm2)
      | Inr tx \<Rightarrow>
          (Inr (tx_ID E tx),
           called CallNotifyBlockReady (vm2\<lparr>mempool := mempool vm2 @ [tx]\<rparr>)))))))"

subsection \<open>Service.CreateContract\<close>

record CreateContractArgs =
  Contract :: bytes
  SenderKey :: bytes
  SenderNonce :: "64 word"

definition CreateContract ::
  "'tx env \<Rightarrow> 'tx VM \<Rightarrow> CreateContractArgs \<Rightarrow> (error + ID) \<times> 'tx VM" where
  "CreateContract E vm args =
     (if length (CreateContractArgs.SenderKey args) = 0 then
        (Inl (ErrorsNew ''argument 'senderKey' not given''), vm)
      else if length (Contract args) = 0 then
        (Inl (ErrorsNew ''argument 'contract' not given''), vm)
      else if CreateContractArgs.SenderNonce args = 0 then
        (Inl (ErrorsNew ''argument 'senderNonce' must be at least 1''), vm)
      else
     (let vm1 = called (CallToPrivateKey (CreateContractArgs.SenderKey args)) vm in
      case ToPrivateKey E (CreateContractArgs.SenderKey args) of
        Inl err \<Rightarrow>
          (Inl (Errorf ''couldn't parse 'senderKey' to a SECP256K1R private key: %v''
                  [OpErr err]), vm1)
      | Inr (KeyOther t) \<Rightarrow>
          (Inl (Errorf ''couldn't parse 'senderKey' to a SECP256K1R private key: %v''
                  [OpNilErr]), vm1)
      | Inr (KeySECP256K1R senderKey) \<Rightarrow>
     (let vm2 = called (CallNewCreateContractTx (Contract args)
                          (CreateContractArgs.SenderNonce args) senderKey) vm1 in
      case newCreateContractTx E (Contract args) (CreateContractArgs.SenderNonce args)
             senderKey of
        Inl err \<Rightarrow> (Inl (Errorf ''couldn't create tx: %v'' [OpErr err]), vm2)
      | Inr tx \<Rightarrow>
          (Inr (tx_ID E tx),
           called CallNotifyBlockReady (vm2\<lparr>mempool := mempool vm2 @ [tx]\<rparr>)))))"

subsection \<open>Service.GetTx\<close>

record GetTxArgs =
  ID :: ID

record 'r GetTxResponse =
  Tx :: 'r

text \<open>
  \<open>vm_getTx\<close> is the VM's method \<open>getTx\<close> and \<open>db\<close> the VM's \<open>DB\<close>; \<open>'r\<close> is the type
  of a stored receipt (\<open>txReturnValue\<close>). The error of \<open>getTx\<close> is dropped.
\<close>

definition GetTx ::
  "('db \<Rightarrow> ID \<Rightarrow> error + 'r) \<Rightarrow> 'db \<Rightarrow> GetTxArgs \<Rightarrow> error + 'r GetTxResponse" where
  "GetTx vm_getTx db args =
     (case vm_getTx db (ID args) of
        Inl err \<Rightarrow> Inl (Errorf ''couldn't find tx with ID %s'' [OpID (ID args)])
      | Inr tx \<Rightarrow> Inr \<lparr>Tx = tx\<rparr>)"

text \<open>
  Modelled from the spec: the persistent transaction store (\<open>vm.getTx\<close> and the code
  that writes the store are not in service.go). The spec has
  "lookup(id) -> Transaction | NotFoundError. Pure read against an external store" and
  calls a receipt "the stored representation of a transaction retrievable by identifier".
  So the store is the list of the receipts written, the latest first, each under the
  identifier \<open>rid\<close> gives it, and a lookup finds the latest receipt under an identifier.
\<close>

type_synonym 'r DB = "(ID \<times> 'r) list"

definition putTx :: "('r \<Rightarrow> ID) \<Rightarrow> 'r DB \<Rightarrow> 'r \<Rightarrow> 'r DB" where
  "putTx rid db r = (rid r, r) # db"

definition getTx :: "'r DB \<Rightarrow> ID \<Rightarrow> error + 'r" where
  "getTx db i = (case map_of db i of None \<Rightarrow> Inl (ErrorsNew ''not found'') | Some r \<Rightarrow> Inr r)"

definition stored :: "('r \<Rightarrow> ID) \<Rightarrow> 'r list \<Rightarrow> 'r DB" where
  "stored rid rs = foldl (putTx rid) [] rs"

subsection \<open>Vocabulary of the properties\<close>

text \<open>The source representations the coercer converts.\<close>

fun is_numeric :: "go_value \<Rightarrow> bool" where
  "is_numeric (VInt32 w) = True"
| "is_numeric (VInt64 w) = True"
| "is_numeric (VFloat32 f) = True"
| "is_numeric (VFloat64 f) = True"
| "is_numeric v = False"

text \<open>A top-level JSON array or object.\<close>

fun is_json_container :: "go_value \<Rightarrow> bool" where
  "is_json_container (VSlice xs) = True"
| "is_json_container (VMap m) = True"
| "is_json_container v = False"

fun is_string :: "go_value \<Rightarrow> bool" where
  "is_string (VString s) = True"
| "is_string v = False"

text \<open>
  An error names a value when the value is one of its operands, and mentions a word when
  the word occurs in its text or in the text of an error among its operands.
\<close>

definition names_value :: "error \<Rightarrow> go_value \<Rightarrow> bool" where
  "names_value e v = (OpValue v \<in> set (operands e))"

fun texts :: "error \<Rightarrow> string list"
  and operand_texts :: "operand \<Rightarrow> string list" where
  "texts (ErrorsNew s) = [s]"
| "texts (Errorf s ops) = s # concat (map operand_texts ops)"
| "operand_texts (OpErr e) = texts e"
| "operand_texts (OpValue v) = []"
| "operand_texts (OpArg t v) = []"
| "operand_texts OpNilErr = []"
| "operand_texts (OpID i) = []"

definition mentions :: "error \<Rightarrow> string \<Rightarrow> bool" where
  "mentions e w = list_ex (sublist w) (texts e)"

text \<open>The number of times the scheduler was notified.\<close>

definition notifications :: "'tx VM \<Rightarrow> nat" where
  "notifications vm = count_list (calls vm) CallNotifyBlockReady"

definition key_factory_calls :: "'tx VM \<Rightarrow> nat" where
  "key_factory_calls vm = length (filter (\<lambda>c. case c of CallToPrivateKey b \<Rightarrow> True | _ \<Rightarrow> False) (calls vm))"

definition builder_calls :: "'tx VM \<Rightarrow> nat" where
  "builder_calls vm =
     length (filter (\<lambda>c. case c of CallNewInvokeTx i f a b n k \<Rightarrow> True
                              | CallNewCreateContractTx b n k \<Rightarrow> True
                              | _ \<Rightarrow> False) (calls vm))"

text \<open>
  The steps of a request before admission, each taken on its own: field validation,
  argument coercion, byte-argument decoding, key parsing (the factory accepts the bytes
  and the key is a SECP256K1R key) and the transaction build. The result is the built
  transaction when every step succeeds and \<open>None\<close> when any step fails.
\<close>

definition invoke_prior_steps :: "'tx env \<Rightarrow> InvokeArgs \<Rightarrow> 'tx option" where
  "invoke_prior_steps E a =
     (case (validate a, toFnArgs E (Args a), getByteArgs E a,
            ToPrivateKey E (InvokeArgs.SenderKey a)) of
        (None, Inr fnArgs, Inr byteArgs, Inr (KeySECP256K1R k)) \<Rightarrow>
          (case newInvokeTx E (ContractID a) (Function a) fnArgs byteArgs
                  (InvokeArgs.SenderNonce a) k of
             Inr tx \<Rightarrow> Some tx
           | Inl e \<Rightarrow> None)
      | _ \<Rightarrow> None)"

definition create_prior_steps :: "'tx env \<Rightarrow> CreateContractArgs \<Rightarrow> 'tx option" where
  "create_prior_steps E c =
     (if SenderKey c = [] \<or> Contract c = [] \<or> SenderNonce c = 0 then None
      else case ToPrivateKey E (SenderKey c) of
        Inr (KeySECP256K1R k) \<Rightarrow>
          (case newCreateContractTx E (Contract c) (SenderNonce c) k of
             Inr tx \<Rightarrow> Some tx
           | Inl e \<Rightarrow> None)
      | _ \<Rightarrow> None)"

subsection \<open>Test doubles\<close>

text \<open>
  Collaborators to run the service on concrete requests. The float conversions are those
  of the amd64 compiler, whose \<open>CVTTSD2SL\<close> and \<open>CVTTSD2SQ\<close> instructions give the
  most negative integer when the value does not fit. The codec knows \<open>45PJLL\<close>, the
  CB58 text of the empty byte sequence; the marshaller knows the empty array and the empty
  object; the key factory takes 32 bytes; a transaction is what it was built from and its
  identifier is its nonce.
\<close>

datatype stub_tx =
    StubInvokeTx ID string "go_value list" bytes "64 word" PrivateKeySECP256K1R
  | StubCreateContractTx bytes "64 word" PrivateKeySECP256K1R

fun stub_ID :: "stub_tx \<Rightarrow> ID" where
  "stub_ID (StubInvokeTx c f a b n k) = ucast n"
| "stub_ID (StubCreateContractTx c n k) = ucast n"

fun stub_Marshal :: "go_value \<Rightarrow> error + bytes" where
  "stub_Marshal (VSlice []) = Inr [0x5B, 0x5D]"
| "stub_Marshal (VMap []) = Inr [0x7B, 0x7D]"
| "stub_Marshal v = Inl (ErrorsNew ''json: unsupported value'')"

definition stub_env :: "stub_tx env" where
  "stub_env =
     \<lparr>ToLower_unicode = (\<lambda>s. s),
      cvt32 = (\<lambda>f. 0x80000000),
      cvt64 = (\<lambda>f. 0x8000000000000000),
      json_Marshal = stub_Marshal,
      CB58_FromString = (\<lambda>s. if s = ''45PJLL'' then Inr [] else Inl (ErrorsNew ''invalid input checksum'')),
      ToPrivateKey = (\<lambda>b. if length b = 32 then Inr (KeySECP256K1R (SECP256K1R b))
                           else Inl (ErrorsNew ''bad key length'')),
      newInvokeTx = (\<lambda>c f a b n k. Inr (StubInvokeTx c f a b n k)),
      newCreateContractTx = (\<lambda>c n k. Inr (StubCreateContractTx c n k)),
      tx_ID = stub_ID\<rparr>"

definition empty_vm :: "stub_tx VM" where
  "empty_vm = \<lparr>mempool = [], calls = []\<rparr>"

definition key32 :: bytes where
  "key32 = replicate 32 7"

definition invoke_req :: InvokeArgs where
  "invoke_req =
     \<lparr>ContractID = 5, Function = ''run'', InvokeArgs.SenderKey = key32,
      InvokeArgs.SenderNonce = 1,
      Args = [\<lparr>Type = ''Int32'', Value = VFloat64 (Finite (Fract 5 2))\<rparr>],
      ByteArgs = VString ''45PJLL''\<rparr>"

definition create_req :: CreateContractArgs where
  "create_req = \<lparr>Contract = [0, 97, 115, 109], SenderKey = key32, SenderNonce = 1\<rparr>"

section \<open>Properties\<close>

subsection \<open>Numeric conversions\<close>

text \<open>\<open>trunc\<close> is truncation towards zero: it never moves away from zero and never by a
  whole unit.\<close>

lemma trunc_toward_zero:
  "\<bar>of_int (trunc q)\<bar> \<le> \<bar>q\<bar> \<and> \<bar>q - of_int (trunc q)\<bar> < 1"
proof (cases "0 \<le> q")
  case True
  then have "0 \<le> \<lfloor>q\<rfloor>" by simp
  then have "(0::rat) \<le> of_int \<lfloor>q\<rfloor>" by simp
  moreover have "of_int \<lfloor>q\<rfloor> \<le> q" "q < of_int \<lfloor>q\<rfloor> + 1" by linarith+
  moreover have "trunc q = \<lfloor>q\<rfloor>" using True by (simp add: trunc_def)
  ultimately show ?thesis using True by linarith
next
  case False
  then have "0 \<le> \<lfloor>- q\<rfloor>" by simp
  then have "(0::rat) \<le> of_int \<lfloor>- q\<rfloor>" by simp
  moreover have "of_int \<lfloor>- q\<rfloor> \<le> - q" "- q < of_int \<lfloor>- q\<rfloor> + 1" by linarith+
  moreover have "of_int (trunc q) = - (of_int \<lfloor>- q\<rfloor> :: rat)"
    using False by (simp add: trunc_def)
  ultimately show ?thesis using False by linarith
qed

lemma int64_to_int32_uint: "uint (int64_to_int32 w) = uint w mod 2 ^ 32"
  by (simp add: int64_to_int32_def unsigned_ucast_eq take_bit_eq_mod)

lemma int64_to_int32_wrap: "uint (int64_to_int32 w) = sint w mod 2 ^ 32"
proof -
  have "take_bit 32 (sint w) = take_bit 32 (uint w)"
    by (simp add: sint_uint take_bit_signed_take_bit)
  then show ?thesis
    by (simp add: int64_to_int32_def unsigned_ucast_eq take_bit_eq_mod)
qed

lemma sint_word_of_int_32: "fits32 k \<Longrightarrow> sint (word_of_int k :: 32 word) = k"
  by (simp add: fits32_def sint_sbintrunc' signed_take_bit_int_eq_self)

lemma sint_word_of_int_64: "fits64 k \<Longrightarrow> sint (word_of_int k :: 64 word) = k"
  by (simp add: fits64_def sint_sbintrunc' signed_take_bit_int_eq_self)

lemma int64_to_int32_sint: "fits32 (sint w) \<Longrightarrow> sint (int64_to_int32 w) = sint w"
proof -
  assume f: "fits32 (sint w)"
  have "int64_to_int32 w = (scast w :: 32 word)"
    by (simp add: int64_to_int32_def down_cast_same is_down)
  also have "\<dots> = word_of_int (sint w)"
    by (rule scast_eq)
  finally have "sint (int64_to_int32 w) = sint (word_of_int (sint w) :: 32 word)"
    by (rule arg_cong)
  then show ?thesis using sint_word_of_int_32 [OF f] by (rule trans)
qed

lemma int32_to_int64_sint: "sint (int32_to_int64 w) = sint w"
  by (simp add: int32_to_int64_def sint_up_scast is_up)

lemma float_to_int32_trunc:
  "fits32 (trunc q) \<Longrightarrow> sint (float_to_int32 E (Finite q)) = trunc q"
  by (simp add: float_to_int32_def sint_word_of_int_32)

lemma float_to_int64_trunc:
  "fits64 (trunc q) \<Longrightarrow> sint (float_to_int64 E (Finite q)) = trunc q"
  by (simp add: float_to_int64_def sint_word_of_int_64)

subsection \<open>The cases of toFnArg\<close>

lemma toFnArg_int32:
  "ToLower E (Type arg) = ''int32'' \<Longrightarrow>
   toFnArg E arg =
     (case Value arg of
        VInt32 i \<Rightarrow> Inr (VInt32 i)
      | VInt64 l \<Rightarrow> Inr (VInt32 (int64_to_int32 l))
      | VFloat32 f \<Rightarrow> Inr (VInt32 (float_to_int32 E f))
      | VFloat64 f \<Rightarrow> Inr (VInt32 (float_to_int32 E f))
      | _ \<Rightarrow> Inl (Errorf ''value '%v' is not convertible to int32'' [OpValue (Value arg)]))"
  by (simp add: toFnArg_def)

lemma toFnArg_int64:
  "ToLower E (Type arg) = ''int64'' \<Longrightarrow>
   toFnArg E arg =
     (case Value arg of
        VInt32 i \<Rightarrow> Inr (VInt64 (int32_to_int64 i))
      | VInt64 l \<Rightarrow> Inr (VInt64 l)
      | VFloat32 f \<Rightarrow> Inr (VInt64 (float_to_int64 E f))
      | VFloat64 f \<Rightarrow> Inr (VInt64 (float_to_int64 E f))
      | _ \<Rightarrow> Inl (Errorf ''value '%v' is not convertible to int64'' [OpValue (Value arg)]))"
  by (simp add: toFnArg_def)

lemma toFnArg_default:
  "ToLower E (Type arg) \<noteq> ''int32'' \<Longrightarrow> ToLower E (Type arg) \<noteq> ''int64'' \<Longrightarrow>
   toFnArg E arg = Inl (ErrorsNew ''arg type must be one of: int32, int64'')"
  by (simp add: toFnArg_def)

lemma mentions_int32:
  "mentions (Errorf ''value '%v' is not convertible to int32'' ops) ''int32''"
  by (simp add: mentions_def sublist_code)

lemma mentions_int64:
  "mentions (Errorf ''value '%v' is not convertible to int64'' ops) ''int64''"
  by (simp add: mentions_def sublist_code)

lemma not_numeric_int32:
  assumes t: "ToLower E (Type arg) = ''int32''" and n: "\<not> is_numeric (Value arg)"
  shows "toFnArg E arg = Inl (Errorf ''value '%v' is not convertible to int32'' [OpValue (Value arg)])"
  using n by (cases "Value arg") (simp_all add: toFnArg_int32 [OF t])

lemma not_numeric_int64:
  assumes t: "ToLower E (Type arg) = ''int64''" and n: "\<not> is_numeric (Value arg)"
  shows "toFnArg E arg = Inl (Errorf ''value '%v' is not convertible to int64'' [OpValue (Value arg)])"
  using n by (cases "Value arg") (simp_all add: toFnArg_int64 [OF t])

text \<open>The test doubles on the inputs of the examples below.\<close>

lemma stub_lower_Int32: "ToLower stub_env ''Int32'' = ''int32''"
  by code_simp
lemma stub_lower_INT64: "ToLower stub_env ''INT64'' = ''int64''"
  by code_simp
lemma stub_lower_int32: "ToLower stub_env ''int32'' = ''int32''"
  by code_simp
lemma stub_lower_string: "ToLower stub_env ''string'' = ''string''"
  by code_simp
lemma trunc_neg_5_2: "trunc (Fract (- 5) 2) = - 2"
  by code_simp
lemma trunc_big: "trunc 4294967301 = 4294967301"
  by (simp add: trunc_def)

subsection \<open>The cases of getByteArgs\<close>

lemma getByteArgs_container:
  "is_json_container (ByteArgs a) \<Longrightarrow>
   getByteArgs E a =
     (case json_Marshal E (ByteArgs a) of Inl err \<Rightarrow> Inl errBagByteArgs | Inr bs \<Rightarrow> Inr bs)"
  by (cases "ByteArgs a") (simp_all add: getByteArgs_def)

lemma getByteArgs_string:
  "ByteArgs a = VString s \<Longrightarrow>
   getByteArgs E a =
     (case CB58_FromString E s of
        Inl err \<Rightarrow> Inl (Errorf
          ''expected 'byteArgs' to be JSON or base58 formatted bytes but was neither'' [])
      | Inr bs \<Rightarrow> Inr bs)"
  by (simp add: getByteArgs_def)

lemma getByteArgs_other:
  "ByteArgs a \<noteq> VNil \<Longrightarrow> \<not> is_json_container (ByteArgs a) \<Longrightarrow> \<not> is_string (ByteArgs a) \<Longrightarrow>
   getByteArgs E a =
     Inl (Errorf ''expected 'byteArgs' to be JSON or base58 formatted bytes but was neither'' [])"
  by (cases "ByteArgs a") (simp_all add: getByteArgs_def)

subsection \<open>C1: the byte-argument decoder\<close>

text \<open>
  Claim C1. \<open>getByteArgs\<close> resolves the \<open>byteArgs\<close> field by a fixed case analysis. A
  nil value gives the empty byte sequence. A top-level array or object gives the bytes
  the JSON encoder produces for it (and \<open>errBagByteArgs\<close> when the encoder fails), and
  the result is the same whatever the CB58 decoder is: the value never reaches the text
  codec. A string gives the bytes the CB58 decoder produces for it, an error when the
  decoder rejects it, and never reaches the JSON encoder. A value of any other form gives
  an error, not a default.
\<close>

theorem getByteArgs_resolution:
  "(ByteArgs a = VNil \<longrightarrow> getByteArgs E a = Inr []) \<and>
   (is_json_container (ByteArgs a) \<longrightarrow>
      (json_Marshal E (ByteArgs a) = Inr bs \<longrightarrow> getByteArgs E a = Inr bs) \<and>
      (json_Marshal E (ByteArgs a) = Inl err \<longrightarrow> getByteArgs E a = Inl errBagByteArgs) \<and>
      getByteArgs (E\<lparr>CB58_FromString := dec\<rparr>) a = getByteArgs E a) \<and>
   (ByteArgs a = VString s \<longrightarrow>
      (CB58_FromString E s = Inr bs \<longrightarrow> getByteArgs E a = Inr bs) \<and>
      (CB58_FromString E s = Inl err \<longrightarrow> (\<exists>e. getByteArgs E a = Inl e)) \<and>
      getByteArgs (E\<lparr>json_Marshal := enc\<rparr>) a = getByteArgs E a) \<and>
   (ByteArgs a \<noteq> VNil \<and> \<not> is_json_container (ByteArgs a) \<and> \<not> is_string (ByteArgs a) \<longrightarrow>
      (\<exists>e. getByteArgs E a = Inl e))"
proof (intro conjI impI)
  show "ByteArgs a = VNil \<Longrightarrow> getByteArgs E a = Inr []"
    by (simp add: getByteArgs_def)
next
  assume c: "is_json_container (ByteArgs a)"
  show "json_Marshal E (ByteArgs a) = Inr bs \<Longrightarrow> getByteArgs E a = Inr bs"
    by (simp add: getByteArgs_container [OF c])
  show "json_Marshal E (ByteArgs a) = Inl err \<Longrightarrow> getByteArgs E a = Inl errBagByteArgs"
    by (simp add: getByteArgs_container [OF c])
  show "getByteArgs (E\<lparr>CB58_FromString := dec\<rparr>) a = getByteArgs E a"
    by (simp add: getByteArgs_container [OF c])
next
  assume s: "ByteArgs a = VString s"
  show "CB58_FromString E s = Inr bs \<Longrightarrow> getByteArgs E a = Inr bs"
    by (simp add: getByteArgs_string [OF s])
  show "CB58_FromString E s = Inl err \<Longrightarrow> \<exists>e. getByteArgs E a = Inl e"
    by (simp add: getByteArgs_string [OF s])
  show "getByteArgs (E\<lparr>json_Marshal := enc\<rparr>) a = getByteArgs E a"
    by (simp add: getByteArgs_string [OF s])
next
  assume "ByteArgs a \<noteq> VNil \<and> \<not> is_json_container (ByteArgs a) \<and> \<not> is_string (ByteArgs a)"
  then show "\<exists>e. getByteArgs E a = Inl e"
    by (simp add: getByteArgs_other)
qed

theorem getByteArgs_resolution_witness:
  "getByteArgs stub_env (invoke_req\<lparr>ByteArgs := VNil\<rparr>) = Inr [] \<and>
   getByteArgs stub_env (invoke_req\<lparr>ByteArgs := VSlice []\<rparr>) = Inr [0x5B, 0x5D] \<and>
   getByteArgs stub_env (invoke_req\<lparr>ByteArgs := VMap [(''k'', VNil)]\<rparr>) = Inl errBagByteArgs \<and>
   getByteArgs stub_env (invoke_req\<lparr>ByteArgs := VString ''45PJLL''\<rparr>) = Inr [] \<and>
   (\<exists>e. getByteArgs stub_env (invoke_req\<lparr>ByteArgs := VString ''[]''\<rparr>) = Inl e) \<and>
   (\<exists>e. getByteArgs stub_env (invoke_req\<lparr>ByteArgs := VFloat64 (Finite 1)\<rparr>) = Inl e)"
proof (intro conjI)
  show "getByteArgs stub_env (invoke_req\<lparr>ByteArgs := VNil\<rparr>) = Inr []"
    using getByteArgs_resolution [of "invoke_req\<lparr>ByteArgs := VNil\<rparr>" stub_env]
    by simp
  show "getByteArgs stub_env (invoke_req\<lparr>ByteArgs := VSlice []\<rparr>) = Inr [0x5B, 0x5D]"
    using getByteArgs_resolution [of "invoke_req\<lparr>ByteArgs := VSlice []\<rparr>" stub_env
        "[0x5B, 0x5D]"]
    by (simp add: stub_env_def)
  show "getByteArgs stub_env (invoke_req\<lparr>ByteArgs := VMap [(''k'', VNil)]\<rparr>) = Inl errBagByteArgs"
    using getByteArgs_resolution [of "invoke_req\<lparr>ByteArgs := VMap [(''k'', VNil)]\<rparr>" stub_env
        _ "ErrorsNew ''json: unsupported value''"]
    by (simp add: stub_env_def)
  show "getByteArgs stub_env (invoke_req\<lparr>ByteArgs := VString ''45PJLL''\<rparr>) = Inr []"
    using getByteArgs_resolution [of "invoke_req\<lparr>ByteArgs := VString ''45PJLL''\<rparr>" stub_env
        "[]" _ _ "''45PJLL''"]
    by (simp add: stub_env_def)
  show "\<exists>e. getByteArgs stub_env (invoke_req\<lparr>ByteArgs := VString ''[]''\<rparr>) = Inl e"
    using getByteArgs_resolution [of "invoke_req\<lparr>ByteArgs := VString ''[]''\<rparr>" stub_env
        _ "ErrorsNew ''invalid input checksum''" _ "''[]''"]
    by (simp add: stub_env_def)
  show "\<exists>e. getByteArgs stub_env (invoke_req\<lparr>ByteArgs := VFloat64 (Finite 1)\<rparr>) = Inl e"
    using getByteArgs_resolution [of "invoke_req\<lparr>ByteArgs := VFloat64 (Finite 1)\<rparr>" stub_env]
    by simp
qed

subsection \<open>C4: the numeric argument coercer\<close>

text \<open>
  Claim C4, as the code has it. When the type tag lowercases to \<open>int32\<close> or \<open>int64\<close>
  and the value is an \<open>int32\<close>, an \<open>int64\<close>, a \<open>float32\<close> or a \<open>float64\<close>,
  \<open>toFnArg\<close> succeeds: an integer is narrowed to its low 32 bits (keeping its value when
  it fits) or widened with its value kept, and a float whose truncation towards zero fits
  the target type is converted to exactly that truncation. A value of any other
  representation fails with an error that names the value and the target type. An
  unrecognized tag fails with the fixed error \<open>arg type must be one of: int32, int64\<close>.
\<close>

theorem toFnArg_coercion:
  "(ToLower E (Type arg) = ''int32'' \<longrightarrow>
      (Value arg = VInt32 i \<longrightarrow> toFnArg E arg = Inr (VInt32 i)) \<and>
      (Value arg = VInt64 l \<longrightarrow>
         (\<exists>r. toFnArg E arg = Inr (VInt32 r) \<and> uint r = uint l mod 2 ^ 32 \<and>
              (fits32 (sint l) \<longrightarrow> sint r = sint l))) \<and>
      (Value arg = VFloat32 f \<or> Value arg = VFloat64 f \<longrightarrow>
         (\<exists>r. toFnArg E arg = Inr (VInt32 r) \<and>
              (\<forall>q. f = Finite q \<and> fits32 (trunc q) \<longrightarrow> sint r = trunc q))) \<and>
      (\<not> is_numeric (Value arg) \<longrightarrow>
         (\<exists>e. toFnArg E arg = Inl e \<and> names_value e (Value arg) \<and> mentions e ''int32''))) \<and>
   (ToLower E (Type arg) = ''int64'' \<longrightarrow>
      (Value arg = VInt32 i \<longrightarrow>
         (\<exists>r. toFnArg E arg = Inr (VInt64 r) \<and> sint r = sint i)) \<and>
      (Value arg = VInt64 l \<longrightarrow> toFnArg E arg = Inr (VInt64 l)) \<and>
      (Value arg = VFloat32 f \<or> Value arg = VFloat64 f \<longrightarrow>
         (\<exists>r. toFnArg E arg = Inr (VInt64 r) \<and>
              (\<forall>q. f = Finite q \<and> fits64 (trunc q) \<longrightarrow> sint r = trunc q))) \<and>
      (\<not> is_numeric (Value arg) \<longrightarrow>
         (\<exists>e. toFnArg E arg = Inl e \<and> names_value e (Value arg) \<and> mentions e ''int64''))) \<and>
   (ToLower E (Type arg) \<noteq> ''int32'' \<and> ToLower E (Type arg) \<noteq> ''int64'' \<longrightarrow>
      toFnArg E arg = Inl (ErrorsNew ''arg type must be one of: int32, int64''))"
proof (intro conjI impI)
  assume t: "ToLower E (Type arg) = ''int32''"
  { assume "Value arg = VInt32 i"
    then show "toFnArg E arg = Inr (VInt32 i)" by (simp add: toFnArg_int32 [OF t]) }
  { assume "Value arg = VInt64 l"
    then have "toFnArg E arg = Inr (VInt32 (int64_to_int32 l))"
      by (simp add: toFnArg_int32 [OF t])
    then show "\<exists>r. toFnArg E arg = Inr (VInt32 r) \<and> uint r = uint l mod 2 ^ 32 \<and>
              (fits32 (sint l) \<longrightarrow> sint r = sint l)"
      by (simp add: int64_to_int32_uint int64_to_int32_sint) }
  { assume "Value arg = VFloat32 f \<or> Value arg = VFloat64 f"
    then have "toFnArg E arg = Inr (VInt32 (float_to_int32 E f))"
      by (auto simp add: toFnArg_int32 [OF t])
    then show "\<exists>r. toFnArg E arg = Inr (VInt32 r) \<and>
              (\<forall>q. f = Finite q \<and> fits32 (trunc q) \<longrightarrow> sint r = trunc q)"
      by (simp add: float_to_int32_trunc) }
  { assume "\<not> is_numeric (Value arg)"
    then have "toFnArg E arg =
        Inl (Errorf ''value '%v' is not convertible to int32'' [OpValue (Value arg)])"
      by (rule not_numeric_int32 [OF t])
    then show "\<exists>e. toFnArg E arg = Inl e \<and> names_value e (Value arg) \<and> mentions e ''int32''"
      using mentions_int32 by (simp add: names_value_def) }
next
  assume t: "ToLower E (Type arg) = ''int64''"
  { assume "Value arg = VInt32 i"
    then have "toFnArg E arg = Inr (VInt64 (int32_to_int64 i))"
      by (simp add: toFnArg_int64 [OF t])
    then show "\<exists>r. toFnArg E arg = Inr (VInt64 r) \<and> sint r = sint i"
      by (simp add: int32_to_int64_sint) }
  { assume "Value arg = VInt64 l"
    then show "toFnArg E arg = Inr (VInt64 l)" by (simp add: toFnArg_int64 [OF t]) }
  { assume "Value arg = VFloat32 f \<or> Value arg = VFloat64 f"
    then have "toFnArg E arg = Inr (VInt64 (float_to_int64 E f))"
      by (auto simp add: toFnArg_int64 [OF t])
    then show "\<exists>r. toFnArg E arg = Inr (VInt64 r) \<and>
              (\<forall>q. f = Finite q \<and> fits64 (trunc q) \<longrightarrow> sint r = trunc q)"
      by (simp add: float_to_int64_trunc) }
  { assume "\<not> is_numeric (Value arg)"
    then have "toFnArg E arg =
        Inl (Errorf ''value '%v' is not convertible to int64'' [OpValue (Value arg)])"
      by (rule not_numeric_int64 [OF t])
    then show "\<exists>e. toFnArg E arg = Inl e \<and> names_value e (Value arg) \<and> mentions e ''int64''"
      using mentions_int64 by (simp add: names_value_def) }
next
  assume "ToLower E (Type arg) \<noteq> ''int32'' \<and> ToLower E (Type arg) \<noteq> ''int64''"
  then show "toFnArg E arg = Inl (ErrorsNew ''arg type must be one of: int32, int64'')"
    by (simp add: toFnArg_default)
qed

theorem toFnArg_coercion_witness:
  "toFnArg stub_env \<lparr>Type = ''Int32'', Value = VInt32 7\<rparr> = Inr (VInt32 7) \<and>
   (\<exists>r. toFnArg stub_env \<lparr>Type = ''Int32'', Value = VInt64 (- 9)\<rparr> = Inr (VInt32 r) \<and>
        sint r = - 9) \<and>
   (\<exists>r. toFnArg stub_env \<lparr>Type = ''Int32'', Value = VFloat64 (Finite (Fract (- 5) 2))\<rparr>
          = Inr (VInt32 r) \<and> sint r = - 2) \<and>
   (\<exists>e. toFnArg stub_env \<lparr>Type = ''int32'', Value = VString ''x''\<rparr> = Inl e \<and>
        names_value e (VString ''x'') \<and> mentions e ''int32'') \<and>
   (\<exists>r. toFnArg stub_env \<lparr>Type = ''INT64'', Value = VInt32 (- 3)\<rparr>
          = Inr (VInt64 r) \<and> sint r = - 3) \<and>
   toFnArg stub_env \<lparr>Type = ''INT64'', Value = VInt64 11\<rparr> = Inr (VInt64 11) \<and>
   (\<exists>r. toFnArg stub_env \<lparr>Type = ''INT64'', Value = VFloat32 (Finite (Fract (- 5) 2))\<rparr>
          = Inr (VInt64 r) \<and> sint r = - 2) \<and>
   (\<exists>e. toFnArg stub_env \<lparr>Type = ''INT64'', Value = VNil\<rparr> = Inl e \<and>
        names_value e VNil \<and> mentions e ''int64'') \<and>
   toFnArg stub_env \<lparr>Type = ''string'', Value = VString ''x''\<rparr>
     = Inl (ErrorsNew ''arg type must be one of: int32, int64'')"
proof (intro conjI)
  have f: "fits32 (- 2)" "fits64 (- 2)" by (simp_all add: fits32_def fits64_def)
  have g: "sint (- 9 :: 64 word) = - 9" "fits32 (- 9)" by (simp_all add: fits32_def)
  show "toFnArg stub_env \<lparr>Type = ''Int32'', Value = VInt32 7\<rparr> = Inr (VInt32 7)"
    using toFnArg_coercion [of stub_env "\<lparr>Type = ''Int32'', Value = VInt32 7\<rparr>" 7 0 NaN]
      stub_lower_Int32
    by simp
  show "\<exists>r. toFnArg stub_env \<lparr>Type = ''Int32'', Value = VInt64 (- 9)\<rparr> = Inr (VInt32 r) \<and>
        sint r = - 9"
    using toFnArg_coercion [of stub_env "\<lparr>Type = ''Int32'', Value = VInt64 (- 9)\<rparr>"
        0 "- 9" NaN]
      stub_lower_Int32 g
    by auto
  show "\<exists>r. toFnArg stub_env \<lparr>Type = ''Int32'', Value = VFloat64 (Finite (Fract (- 5) 2))\<rparr>
          = Inr (VInt32 r) \<and> sint r = - 2"
    using toFnArg_coercion [of stub_env
        "\<lparr>Type = ''Int32'', Value = VFloat64 (Finite (Fract (- 5) 2))\<rparr>"
        0 0 "Finite (Fract (- 5) 2)"]
      stub_lower_Int32 trunc_neg_5_2 f
    by simp
  show "\<exists>e. toFnArg stub_env \<lparr>Type = ''int32'', Value = VString ''x''\<rparr> = Inl e \<and>
        names_value e (VString ''x'') \<and> mentions e ''int32''"
    using toFnArg_coercion [of stub_env "\<lparr>Type = ''int32'', Value = VString ''x''\<rparr>"
        0 0 NaN]
      stub_lower_int32
    by simp
  show "\<exists>r. toFnArg stub_env \<lparr>Type = ''INT64'', Value = VInt32 (- 3)\<rparr>
          = Inr (VInt64 r) \<and> sint r = - 3"
    using toFnArg_coercion [of stub_env "\<lparr>Type = ''INT64'', Value = VInt32 (- 3)\<rparr>"
        "- 3" 0 NaN]
      stub_lower_INT64
    by simp
  show "toFnArg stub_env \<lparr>Type = ''INT64'', Value = VInt64 11\<rparr> = Inr (VInt64 11)"
    using toFnArg_coercion [of stub_env "\<lparr>Type = ''INT64'', Value = VInt64 11\<rparr>" 0 11 NaN]
      stub_lower_INT64
    by simp
  show "\<exists>r. toFnArg stub_env \<lparr>Type = ''INT64'', Value = VFloat32 (Finite (Fract (- 5) 2))\<rparr>
          = Inr (VInt64 r) \<and> sint r = - 2"
    using toFnArg_coercion [of stub_env
        "\<lparr>Type = ''INT64'', Value = VFloat32 (Finite (Fract (- 5) 2))\<rparr>"
        0 0 "Finite (Fract (- 5) 2)"]
      stub_lower_INT64 trunc_neg_5_2 f
    by simp
  show "\<exists>e. toFnArg stub_env \<lparr>Type = ''INT64'', Value = VNil\<rparr> = Inl e \<and>
        names_value e VNil \<and> mentions e ''int64''"
    using toFnArg_coercion [of stub_env "\<lparr>Type = ''INT64'', Value = VNil\<rparr>" 0 0 NaN]
      stub_lower_INT64
    by simp
  show "toFnArg stub_env \<lparr>Type = ''string'', Value = VString ''x''\<rparr>
     = Inl (ErrorsNew ''arg type must be one of: int32, int64'')"
    using toFnArg_coercion [of stub_env "\<lparr>Type = ''string'', Value = VString ''x''\<rparr>"
        0 0 NaN]
      stub_lower_string
    by simp
qed

text \<open>
  The claim as written fails twice. The error for an unrecognized tag has no operand and
  its text is fixed: it names neither the offending value nor the declared type
  \<open>string\<close>. And the \<open>float64\<close> 4294967301 with tag \<open>int32\<close> is converted to
  \<open>-2147483648\<close> on amd64, which is not its truncation towards zero.
\<close>

theorem toFnArg_error_counterexample:
  "toFnArg stub_env \<lparr>Type = ''string'', Value = VString ''x''\<rparr>
     = Inl (ErrorsNew ''arg type must be one of: int32, int64'') \<and>
   \<not> names_value (ErrorsNew ''arg type must be one of: int32, int64'') (VString ''x'') \<and>
   \<not> mentions (ErrorsNew ''arg type must be one of: int32, int64'') ''string'' \<and>
   toFnArg stub_env \<lparr>Type = ''int32'', Value = VFloat64 (Finite 4294967301)\<rparr>
     = Inr (VInt32 (- 2147483648))"
  by code_simp

subsection \<open>C10: values outside the 32-bit range\<close>

text \<open>
  Claim C10, as the code has it. With tag \<open>int32\<close>, an \<open>int64\<close> outside the 32-bit
  signed range is not rejected: \<open>toFnArg\<close> succeeds with the value reduced modulo
  \<open>2^32\<close>. A float whose truncation is outside the range (or that is NaN or infinite) is
  not rejected either: \<open>toFnArg\<close> succeeds with the value the implementation's
  conversion gives, \<open>cvt32\<close>.
\<close>

theorem toFnArg_int32_out_of_range:
  "ToLower E (Type arg) = ''int32'' \<Longrightarrow>
   (Value arg = VInt64 l \<and> \<not> fits32 (sint l) \<longrightarrow>
      (\<exists>r. toFnArg E arg = Inr (VInt32 r) \<and> uint r = sint l mod 2 ^ 32)) \<and>
   ((Value arg = VFloat32 f \<or> Value arg = VFloat64 f) \<and>
    (\<forall>q. f = Finite q \<longrightarrow> \<not> fits32 (trunc q)) \<longrightarrow>
      toFnArg E arg = Inr (VInt32 (cvt32 E f)))"
proof (intro conjI impI)
  assume t: "ToLower E (Type arg) = ''int32''"
  { assume "Value arg = VInt64 l \<and> \<not> fits32 (sint l)"
    then have "toFnArg E arg = Inr (VInt32 (int64_to_int32 l))"
      by (simp add: toFnArg_int32 [OF t])
    then show "\<exists>r. toFnArg E arg = Inr (VInt32 r) \<and> uint r = sint l mod 2 ^ 32"
      by (simp add: int64_to_int32_wrap) }
  { assume a: "(Value arg = VFloat32 f \<or> Value arg = VFloat64 f) \<and>
      (\<forall>q. f = Finite q \<longrightarrow> \<not> fits32 (trunc q))"
    then have "toFnArg E arg = Inr (VInt32 (float_to_int32 E f))"
      by (auto simp add: toFnArg_int32 [OF t])
    moreover have "float_to_int32 E f = cvt32 E f"
      using a by (cases f) (simp_all add: float_to_int32_def)
    ultimately show "toFnArg E arg = Inr (VInt32 (cvt32 E f))" by simp }
qed

theorem toFnArg_int32_out_of_range_witness:
  "(\<exists>r. toFnArg stub_env \<lparr>Type = ''int32'', Value = VInt64 4294967301\<rparr> = Inr (VInt32 r) \<and>
        uint r = 5) \<and>
   toFnArg stub_env \<lparr>Type = ''int32'', Value = VFloat64 (Finite 4294967301)\<rparr>
     = Inr (VInt32 (- 2147483648))"
proof (intro conjI)
  have s: "sint (4294967301 :: 64 word) = 4294967301" by simp
  have nf: "\<not> fits32 4294967301" by (simp add: fits32_def)
  have c: "cvt32 stub_env (Finite 4294967301) = - 2147483648" by (simp add: stub_env_def)
  show "\<exists>r. toFnArg stub_env \<lparr>Type = ''int32'', Value = VInt64 4294967301\<rparr> = Inr (VInt32 r) \<and>
        uint r = 5"
    using toFnArg_int32_out_of_range [of stub_env
        "\<lparr>Type = ''int32'', Value = VInt64 4294967301\<rparr>" 4294967301 NaN]
      stub_lower_int32 s nf
    by simp
  show "toFnArg stub_env \<lparr>Type = ''int32'', Value = VFloat64 (Finite 4294967301)\<rparr>
     = Inr (VInt32 (- 2147483648))"
    using toFnArg_int32_out_of_range [of stub_env
        "\<lparr>Type = ''int32'', Value = VFloat64 (Finite 4294967301)\<rparr>" 0 "Finite 4294967301"]
      stub_lower_int32 trunc_big nf c
    by simp
qed

text \<open>
  For a float the result need not be the value modulo \<open>2^32\<close>: on amd64 the
  \<open>float64\<close> 4294967301 becomes \<open>-2147483648\<close>, and 4294967301 modulo \<open>2^32\<close> is 5.
\<close>

theorem toFnArg_float_wrap_counterexample:
  "toFnArg stub_env \<lparr>Type = ''int32'', Value = VFloat64 (Finite 4294967301)\<rparr>
     = Inr (VInt32 (- 2147483648)) \<and>
   (4294967301 :: int) mod 2 ^ 32 = 5 \<and>
   toFnArg stub_env \<lparr>Type = ''int32'', Value = VFloat64 (Finite 4294967301)\<rparr>
     \<noteq> Inr (VInt32 5)"
  by code_simp

subsection \<open>The paths of Invoke and CreateContract\<close>

lemma notifications_called:
  "notifications (called c vm) = notifications vm + (if c = CallNotifyBlockReady then 1 else 0)"
  by (simp add: notifications_def called_def)

lemma notifications_mempool: "notifications (vm\<lparr>mempool := m\<rparr>) = notifications vm"
  by (simp add: notifications_def)

lemma mempool_called: "mempool (called c vm) = mempool vm"
  by (simp add: called_def)

lemma Invoke_validation_fails:
  "validate a = Some e \<Longrightarrow>
   Invoke E vm a = (Inl (Errorf ''arguments failed validation: %v'' [OpErr e]), vm)"
  by (simp add: Invoke_def)

lemma Invoke_not_admitted:
  "invoke_prior_steps E a = None \<Longrightarrow>
   (\<exists>e. fst (Invoke E vm a) = Inl e) \<and> mempool (snd (Invoke E vm a)) = mempool vm \<and>
   notifications (snd (Invoke E vm a)) = notifications vm"
  by (auto simp add: invoke_prior_steps_def Invoke_def Let_def notifications_called
        notifications_mempool mempool_called split: option.splits sum.splits PrivateKey.splits)

lemma Invoke_admitted:
  "invoke_prior_steps E a = Some tx \<Longrightarrow>
   fst (Invoke E vm a) = Inr (tx_ID E tx) \<and> mempool (snd (Invoke E vm a)) = mempool vm @ [tx] \<and>
   notifications (snd (Invoke E vm a)) = notifications vm + 1"
  by (auto simp add: invoke_prior_steps_def Invoke_def Let_def notifications_called
        notifications_mempool mempool_called split: option.splits sum.splits PrivateKey.splits)

lemma CreateContract_not_admitted:
  "create_prior_steps E c = None \<Longrightarrow>
   (\<exists>e. fst (CreateContract E vm c) = Inl e) \<and>
   mempool (snd (CreateContract E vm c)) = mempool vm \<and>
   notifications (snd (CreateContract E vm c)) = notifications vm"
  by (auto simp add: create_prior_steps_def CreateContract_def Let_def notifications_called
        notifications_mempool mempool_called split: if_splits sum.splits PrivateKey.splits)

lemma CreateContract_admitted:
  "create_prior_steps E c = Some tx \<Longrightarrow>
   fst (CreateContract E vm c) = Inr (tx_ID E tx) \<and>
   mempool (snd (CreateContract E vm c)) = mempool vm @ [tx] \<and>
   notifications (snd (CreateContract E vm c)) = notifications vm + 1"
  by (auto simp add: create_prior_steps_def CreateContract_def Let_def notifications_called
        notifications_mempool mempool_called split: if_splits sum.splits PrivateKey.splits)

lemma validate_nonce_zero:
  "InvokeArgs.SenderNonce a = 0 \<Longrightarrow>
   validate a = (if InvokeArgs.SenderKey a = [] then Some (ErrorsNew ''argument 'senderKey' not provided'')
                 else Some (ErrorsNew '''senderNonce' must be at least 1''))"
  by (simp add: validate_def)

lemma validate_nonce_nonzero:
  "InvokeArgs.SenderNonce a \<noteq> 0 \<Longrightarrow>
   validate a \<noteq> Some (ErrorsNew '''senderNonce' must be at least 1'')"
  by (simp add: validate_def)

lemma validate_empty_contractID:
  "ContractID a = ids_Empty \<Longrightarrow>
   validate a =
     (if InvokeArgs.SenderKey a = [] then Some (ErrorsNew ''argument 'senderKey' not provided'')
      else if InvokeArgs.SenderNonce a = 0 then Some (ErrorsNew '''senderNonce' must be at least 1'')
      else Some (ErrorsNew ''contractID not specified''))"
  by (simp add: validate_def)

lemma CreateContract_validation:
  "CreateContractArgs.SenderKey c = [] \<or> Contract c = [] \<or> CreateContractArgs.SenderNonce c = 0 \<Longrightarrow>
   CreateContract E vm c =
     (if CreateContractArgs.SenderKey c = [] then (Inl (ErrorsNew ''argument 'senderKey' not given''), vm)
      else if Contract c = [] then (Inl (ErrorsNew ''argument 'contract' not given''), vm)
      else (Inl (ErrorsNew ''argument 'senderNonce' must be at least 1''), vm))"
  by (auto simp add: CreateContract_def)

lemma CreateContract_nonce_nonzero:
  "CreateContractArgs.SenderNonce c \<noteq> 0 \<Longrightarrow>
   fst (CreateContract E vm c) \<noteq> Inl (ErrorsNew ''argument 'senderNonce' must be at least 1'')"
  by (auto simp add: CreateContract_def Let_def called_def split: sum.splits PrivateKey.splits)

lemma key_factory_calls_called:
  "key_factory_calls (called c vm) =
     key_factory_calls vm + (case c of CallToPrivateKey b \<Rightarrow> 1 | _ \<Rightarrow> 0)"
  by (cases c) (simp_all add: key_factory_calls_def called_def)

lemma key_factory_calls_mempool:
  "key_factory_calls (vm\<lparr>mempool := m\<rparr>) = key_factory_calls vm"
  by (simp add: key_factory_calls_def)

lemma CreateContract_reaches_key_factory:
  "CreateContractArgs.SenderNonce c = 1 \<Longrightarrow> CreateContractArgs.SenderKey c \<noteq> [] \<Longrightarrow>
   Contract c \<noteq> [] \<Longrightarrow>
   key_factory_calls (snd (CreateContract E vm c)) = key_factory_calls vm + 1"
  by (auto simp add: CreateContract_def Let_def key_factory_calls_called
        key_factory_calls_mempool split: sum.splits PrivateKey.splits)

lemma key_failure_invoke_steps:
  "ToPrivateKey E (InvokeArgs.SenderKey a) = Inl err \<or>
   ToPrivateKey E (InvokeArgs.SenderKey a) = Inr (KeyOther t) \<Longrightarrow>
   invoke_prior_steps E a = None"
  by (auto simp add: invoke_prior_steps_def split: option.splits sum.splits)

lemma key_failure_create_steps:
  "ToPrivateKey E (CreateContractArgs.SenderKey c) = Inl err \<or>
   ToPrivateKey E (CreateContractArgs.SenderKey c) = Inr (KeyOther t) \<Longrightarrow>
   create_prior_steps E c = None"
  by (auto simp add: create_prior_steps_def)

lemma Invoke_key_failure:
  "ToPrivateKey E (InvokeArgs.SenderKey a) = Inl err \<or>
   ToPrivateKey E (InvokeArgs.SenderKey a) = Inr (KeyOther t) \<Longrightarrow>
   validate a = None \<Longrightarrow> \<not> isl (toFnArgs E (Args a)) \<Longrightarrow> \<not> isl (getByteArgs E a) \<Longrightarrow>
   \<exists>op. fst (Invoke E vm a) =
     Inl (Errorf ''couldn't parse 'privateKey' to a SECP256K1R private key: %v'' [op])"
  by (auto simp add: Invoke_def Let_def split: sum.splits)

lemma CreateContract_key_failure:
  "ToPrivateKey E (CreateContractArgs.SenderKey c) = Inl err \<or>
   ToPrivateKey E (CreateContractArgs.SenderKey c) = Inr (KeyOther t) \<Longrightarrow>
   CreateContractArgs.SenderKey c \<noteq> [] \<Longrightarrow> Contract c \<noteq> [] \<Longrightarrow>
   CreateContractArgs.SenderNonce c \<noteq> 0 \<Longrightarrow>
   \<exists>op. fst (CreateContract E vm c) =
     Inl (Errorf ''couldn't parse 'senderKey' to a SECP256K1R private key: %v'' [op])"
  by (auto simp add: CreateContract_def Let_def)

text \<open>The test doubles on the requests of the examples below.\<close>

lemma stub_steps_ok:
  "invoke_prior_steps stub_env invoke_req
     = Some (StubInvokeTx 5 ''run'' [VInt32 2] [] 1 (SECP256K1R key32))"
  by code_simp

lemma stub_steps_bad_byteArgs:
  "invoke_prior_steps stub_env (invoke_req\<lparr>ByteArgs := VString ''zz''\<rparr>) = None"
  by code_simp

lemma stub_create_ok:
  "create_prior_steps stub_env create_req
     = Some (StubCreateContractTx [0, 97, 115, 109] 1 (SECP256K1R key32))"
  by code_simp

lemma stub_create_bad_key:
  "create_prior_steps stub_env (create_req\<lparr>SenderKey := [1]\<rparr>) = None"
  by code_simp

lemma stub_key_rejected:
  "ToPrivateKey stub_env (InvokeArgs.SenderKey (invoke_req\<lparr>InvokeArgs.SenderKey := [1]\<rparr>))
     = Inl (ErrorsNew ''bad key length'')"
  by code_simp

lemma stub_prior_ok:
  "validate (invoke_req\<lparr>InvokeArgs.SenderKey := [1]\<rparr>) = None \<and>
   \<not> isl (toFnArgs stub_env (Args (invoke_req\<lparr>InvokeArgs.SenderKey := [1]\<rparr>))) \<and>
   \<not> isl (getByteArgs stub_env (invoke_req\<lparr>InvokeArgs.SenderKey := [1]\<rparr>))"
  by code_simp

lemma create_req_valid:
  "CreateContractArgs.SenderKey create_req \<noteq> [] \<and> Contract create_req \<noteq> [] \<and>
   CreateContractArgs.SenderNonce create_req \<noteq> 0"
  by code_simp

subsection \<open>C3: admission only after every prior step\<close>

text \<open>
  Claim C3. When any step of \<open>Invoke\<close> or \<open>CreateContract\<close> before admission fails
  (field validation, argument coercion, byte-argument decoding, key parsing, transaction
  build), the operation returns an error, the mempool is exactly as it was and the
  scheduler is not notified. When every step succeeds the operation returns the
  identifier of the built transaction, the mempool is the old one with that transaction
  appended, and the scheduler is notified once. So the append and the notification happen
  only after every prior step has succeeded.
\<close>

theorem admission_after_all_steps:
  "(invoke_prior_steps E a = None \<longrightarrow>
      (\<exists>e. fst (Invoke E vm a) = Inl e) \<and> mempool (snd (Invoke E vm a)) = mempool vm \<and>
      notifications (snd (Invoke E vm a)) = notifications vm) \<and>
   (invoke_prior_steps E a = Some tx \<longrightarrow>
      fst (Invoke E vm a) = Inr (tx_ID E tx) \<and>
      mempool (snd (Invoke E vm a)) = mempool vm @ [tx] \<and>
      notifications (snd (Invoke E vm a)) = notifications vm + 1) \<and>
   (create_prior_steps E c = None \<longrightarrow>
      (\<exists>e. fst (CreateContract E vm c) = Inl e) \<and>
      mempool (snd (CreateContract E vm c)) = mempool vm \<and>
      notifications (snd (CreateContract E vm c)) = notifications vm) \<and>
   (create_prior_steps E c = Some tx' \<longrightarrow>
      fst (CreateContract E vm c) = Inr (tx_ID E tx') \<and>
      mempool (snd (CreateContract E vm c)) = mempool vm @ [tx'] \<and>
      notifications (snd (CreateContract E vm c)) = notifications vm + 1)"
  using Invoke_not_admitted [of E a vm] Invoke_admitted [of E a tx vm]
    CreateContract_not_admitted [of E c vm] CreateContract_admitted [of E c tx' vm]
  by blast

theorem admission_after_all_steps_witness:
  "(\<exists>e. fst (Invoke stub_env empty_vm (invoke_req\<lparr>ByteArgs := VString ''zz''\<rparr>)) = Inl e) \<and>
   mempool (snd (Invoke stub_env empty_vm (invoke_req\<lparr>ByteArgs := VString ''zz''\<rparr>))) = [] \<and>
   fst (Invoke stub_env empty_vm invoke_req) = Inr 1 \<and>
   mempool (snd (Invoke stub_env empty_vm invoke_req))
     = [StubInvokeTx 5 ''run'' [VInt32 2] [] 1 (SECP256K1R key32)] \<and>
   notifications (snd (Invoke stub_env empty_vm invoke_req)) = 1 \<and>
   (\<exists>e. fst (CreateContract stub_env empty_vm (create_req\<lparr>SenderKey := [1]\<rparr>)) = Inl e) \<and>
   mempool (snd (CreateContract stub_env empty_vm (create_req\<lparr>SenderKey := [1]\<rparr>))) = [] \<and>
   mempool (snd (CreateContract stub_env empty_vm create_req))
     = [StubCreateContractTx [0, 97, 115, 109] 1 (SECP256K1R key32)]"
proof -
  have m: "mempool empty_vm = []" "notifications empty_vm = 0"
    by (simp_all add: empty_vm_def notifications_def)
  have i: "tx_ID stub_env (StubInvokeTx 5 ''run'' [VInt32 2] [] 1 (SECP256K1R key32)) = 1"
    by (simp add: stub_env_def)
  show ?thesis
    using admission_after_all_steps [where E = stub_env and vm = empty_vm
        and a = "invoke_req\<lparr>ByteArgs := VString ''zz''\<rparr>"
        and c = "create_req\<lparr>SenderKey := [1]\<rparr>"]
      admission_after_all_steps [where E = stub_env and vm = empty_vm
        and a = invoke_req and c = create_req
        and tx = "StubInvokeTx 5 ''run'' [VInt32 2] [] 1 (SECP256K1R key32)"
        and tx' = "StubCreateContractTx [0, 97, 115, 109] 1 (SECP256K1R key32)"]
      stub_steps_ok stub_steps_bad_byteArgs stub_create_ok stub_create_bad_key m i
    by simp
qed

subsection \<open>C5: the nonce boundary\<close>

text \<open>
  Claim C5, as the code has it. A request with \<open>senderNonce = 0\<close> is always rejected by
  validation, by \<open>Invoke\<close> and by \<open>CreateContract\<close>, and the VM is left as it was. The
  error is the nonce error when the checks made before the nonce check pass: a non-empty
  \<open>senderKey\<close>, and for \<open>CreateContract\<close> a non-empty \<open>contract\<close> as well.
  Otherwise it is the error of the first check that fails: the one about \<open>senderKey\<close>
  when that is empty, and for \<open>CreateContract\<close> the one about \<open>contract\<close> when the key
  is there and the contract is empty. A request with \<open>senderNonce = 1\<close> passes the nonce
  check: it never gets the nonce error, the outcome of \<open>validate\<close> is that of the other
  checks, and \<open>CreateContract\<close> with a key and a contract goes on to the key factory.
\<close>

theorem nonce_boundary:
  "(InvokeArgs.SenderNonce a = 0 \<longrightarrow>
      (InvokeArgs.SenderKey a = [] \<longrightarrow>
         validate a = Some (ErrorsNew ''argument 'senderKey' not provided'') \<and>
         Invoke E vm a =
           (Inl (Errorf ''arguments failed validation: %v''
                   [OpErr (ErrorsNew ''argument 'senderKey' not provided'')]), vm)) \<and>
      (InvokeArgs.SenderKey a \<noteq> [] \<longrightarrow>
         validate a = Some (ErrorsNew '''senderNonce' must be at least 1'') \<and>
         Invoke E vm a =
           (Inl (Errorf ''arguments failed validation: %v''
                   [OpErr (ErrorsNew '''senderNonce' must be at least 1'')]), vm))) \<and>
   (InvokeArgs.SenderNonce a = 1 \<longrightarrow>
      validate a \<noteq> Some (ErrorsNew '''senderNonce' must be at least 1'') \<and>
      validate a =
        (if InvokeArgs.SenderKey a = [] then
           Some (ErrorsNew ''argument 'senderKey' not provided'')
         else if ContractID a = ids_Empty then Some (ErrorsNew ''contractID not specified'')
         else if Function a = [] then Some (ErrorsNew ''function not specified'')
         else None)) \<and>
   (CreateContractArgs.SenderNonce c = 0 \<longrightarrow>
      (CreateContractArgs.SenderKey c = [] \<longrightarrow>
         CreateContract E vm' c = (Inl (ErrorsNew ''argument 'senderKey' not given''), vm')) \<and>
      (CreateContractArgs.SenderKey c \<noteq> [] \<and> Contract c = [] \<longrightarrow>
         CreateContract E vm' c = (Inl (ErrorsNew ''argument 'contract' not given''), vm')) \<and>
      (CreateContractArgs.SenderKey c \<noteq> [] \<and> Contract c \<noteq> [] \<longrightarrow>
         CreateContract E vm' c =
           (Inl (ErrorsNew ''argument 'senderNonce' must be at least 1''), vm'))) \<and>
   (CreateContractArgs.SenderNonce c = 1 \<longrightarrow>
      fst (CreateContract E vm' c) \<noteq> Inl (ErrorsNew ''argument 'senderNonce' must be at least 1'') \<and>
      (CreateContractArgs.SenderKey c \<noteq> [] \<and> Contract c \<noteq> [] \<longrightarrow>
         key_factory_calls (snd (CreateContract E vm' c)) = key_factory_calls vm' + 1))"
proof (intro conjI impI)
  assume z: "InvokeArgs.SenderNonce a = 0"
  { assume k: "InvokeArgs.SenderKey a = []"
    then show v: "validate a = Some (ErrorsNew ''argument 'senderKey' not provided'')"
      by (simp add: validate_nonce_zero [OF z])
    show "Invoke E vm a =
           (Inl (Errorf ''arguments failed validation: %v''
                   [OpErr (ErrorsNew ''argument 'senderKey' not provided'')]), vm)"
      by (rule Invoke_validation_fails [OF v]) }
  { assume k: "InvokeArgs.SenderKey a \<noteq> []"
    then show v: "validate a = Some (ErrorsNew '''senderNonce' must be at least 1'')"
      by (simp add: validate_nonce_zero [OF z])
    show "Invoke E vm a =
           (Inl (Errorf ''arguments failed validation: %v''
                   [OpErr (ErrorsNew '''senderNonce' must be at least 1'')]), vm)"
      by (rule Invoke_validation_fails [OF v]) }
next
  assume o: "InvokeArgs.SenderNonce a = 1"
  then show "validate a \<noteq> Some (ErrorsNew '''senderNonce' must be at least 1'')"
    by (simp add: validate_nonce_nonzero)
  show "validate a =
        (if InvokeArgs.SenderKey a = [] then
           Some (ErrorsNew ''argument 'senderKey' not provided'')
         else if ContractID a = ids_Empty then Some (ErrorsNew ''contractID not specified'')
         else if Function a = [] then Some (ErrorsNew ''function not specified'')
         else None)"
    using o by (simp add: validate_def)
next
  assume z: "CreateContractArgs.SenderNonce c = 0"
  show "CreateContractArgs.SenderKey c = [] \<Longrightarrow>
         CreateContract E vm' c = (Inl (ErrorsNew ''argument 'senderKey' not given''), vm')"
    using z by (simp add: CreateContract_validation)
  show "CreateContractArgs.SenderKey c \<noteq> [] \<and> Contract c = [] \<Longrightarrow>
         CreateContract E vm' c = (Inl (ErrorsNew ''argument 'contract' not given''), vm')"
    using z by (simp add: CreateContract_validation)
  show "CreateContractArgs.SenderKey c \<noteq> [] \<and> Contract c \<noteq> [] \<Longrightarrow>
         CreateContract E vm' c =
           (Inl (ErrorsNew ''argument 'senderNonce' must be at least 1''), vm')"
    using z by (simp add: CreateContract_validation)
next
  assume o: "CreateContractArgs.SenderNonce c = 1"
  then show "fst (CreateContract E vm' c) \<noteq>
      Inl (ErrorsNew ''argument 'senderNonce' must be at least 1'')"
    by (simp add: CreateContract_nonce_nonzero)
  show "CreateContractArgs.SenderKey c \<noteq> [] \<and> Contract c \<noteq> [] \<Longrightarrow>
      key_factory_calls (snd (CreateContract E vm' c)) = key_factory_calls vm' + 1"
    using CreateContract_reaches_key_factory [OF o] by simp
qed

theorem nonce_boundary_witness:
  "validate (invoke_req\<lparr>InvokeArgs.SenderKey := [], InvokeArgs.SenderNonce := 0\<rparr>)
     = Some (ErrorsNew ''argument 'senderKey' not provided'') \<and>
   Invoke stub_env empty_vm (invoke_req\<lparr>InvokeArgs.SenderNonce := 0\<rparr>)
     = (Inl (Errorf ''arguments failed validation: %v''
               [OpErr (ErrorsNew '''senderNonce' must be at least 1'')]), empty_vm) \<and>
   validate invoke_req = None \<and>
   CreateContract stub_env empty_vm (create_req\<lparr>SenderKey := [], SenderNonce := 0\<rparr>)
     = (Inl (ErrorsNew ''argument 'senderKey' not given''), empty_vm) \<and>
   CreateContract stub_env empty_vm (create_req\<lparr>Contract := [], SenderNonce := 0\<rparr>)
     = (Inl (ErrorsNew ''argument 'contract' not given''), empty_vm) \<and>
   CreateContract stub_env empty_vm (create_req\<lparr>SenderNonce := 0\<rparr>)
     = (Inl (ErrorsNew ''argument 'senderNonce' must be at least 1''), empty_vm) \<and>
   fst (CreateContract stub_env empty_vm create_req)
     \<noteq> Inl (ErrorsNew ''argument 'senderNonce' must be at least 1'') \<and>
   key_factory_calls (snd (CreateContract stub_env empty_vm create_req)) = 1"
proof (intro conjI)
  have k: "key32 \<noteq> []" by (simp add: key32_def)
  have z: "key_factory_calls empty_vm = 0"
    by (simp add: key_factory_calls_def empty_vm_def)
  show "validate (invoke_req\<lparr>InvokeArgs.SenderKey := [], InvokeArgs.SenderNonce := 0\<rparr>)
     = Some (ErrorsNew ''argument 'senderKey' not provided'')"
    using nonce_boundary [of
        "invoke_req\<lparr>InvokeArgs.SenderKey := [], InvokeArgs.SenderNonce := 0\<rparr>"
        stub_env empty_vm create_req empty_vm]
    by simp
  show "Invoke stub_env empty_vm (invoke_req\<lparr>InvokeArgs.SenderNonce := 0\<rparr>)
     = (Inl (Errorf ''arguments failed validation: %v''
               [OpErr (ErrorsNew '''senderNonce' must be at least 1'')]), empty_vm)"
    using nonce_boundary [of "invoke_req\<lparr>InvokeArgs.SenderNonce := 0\<rparr>" stub_env empty_vm
        create_req empty_vm] k
    by (simp add: invoke_req_def)
  show "validate invoke_req = None"
    using nonce_boundary [of invoke_req stub_env empty_vm create_req empty_vm] k
    by (simp add: invoke_req_def ids_Empty_def)
  show "CreateContract stub_env empty_vm (create_req\<lparr>SenderKey := [], SenderNonce := 0\<rparr>)
     = (Inl (ErrorsNew ''argument 'senderKey' not given''), empty_vm)"
    using nonce_boundary [of invoke_req stub_env empty_vm
        "create_req\<lparr>SenderKey := [], SenderNonce := 0\<rparr>" empty_vm]
    by simp
  show "CreateContract stub_env empty_vm (create_req\<lparr>Contract := [], SenderNonce := 0\<rparr>)
     = (Inl (ErrorsNew ''argument 'contract' not given''), empty_vm)"
    using nonce_boundary [of invoke_req stub_env empty_vm
        "create_req\<lparr>Contract := [], SenderNonce := 0\<rparr>" empty_vm] k
    by (simp add: create_req_def)
  show "CreateContract stub_env empty_vm (create_req\<lparr>SenderNonce := 0\<rparr>)
     = (Inl (ErrorsNew ''argument 'senderNonce' must be at least 1''), empty_vm)"
    using nonce_boundary [of invoke_req stub_env empty_vm "create_req\<lparr>SenderNonce := 0\<rparr>"
        empty_vm] k
    by (simp add: create_req_def)
  show "fst (CreateContract stub_env empty_vm create_req)
     \<noteq> Inl (ErrorsNew ''argument 'senderNonce' must be at least 1'')"
    using nonce_boundary [of invoke_req stub_env empty_vm create_req empty_vm]
    by (simp add: create_req_def)
  show "key_factory_calls (snd (CreateContract stub_env empty_vm create_req)) = 1"
    using nonce_boundary [of invoke_req stub_env empty_vm create_req empty_vm] k z
    by (simp add: create_req_def)
qed

text \<open>
  With \<open>senderNonce = 0\<close> and an empty \<open>senderKey\<close>, \<open>validate\<close> reports the key, and
  with an empty \<open>contract\<close> \<open>CreateContract\<close> reports the contract: neither error is
  about the nonce.
\<close>

theorem nonce_zero_error_counterexample:
  "validate (invoke_req\<lparr>InvokeArgs.SenderKey := [], InvokeArgs.SenderNonce := 0\<rparr>)
     = Some (ErrorsNew ''argument 'senderKey' not provided'') \<and>
   \<not> mentions (ErrorsNew ''argument 'senderKey' not provided'') ''senderNonce'' \<and>
   fst (CreateContract stub_env empty_vm (create_req\<lparr>Contract := [], SenderNonce := 0\<rparr>))
     = Inl (ErrorsNew ''argument 'contract' not given'') \<and>
   \<not> mentions (ErrorsNew ''argument 'contract' not given'') ''senderNonce''"
  by code_simp

subsection \<open>C6: an empty contractID\<close>

text \<open>
  Claim C6, as the code has it. An \<open>Invoke\<close> request whose \<open>contractID\<close> is the empty,
  zero-valued identifier \<open>ids.Empty\<close> always fails validation and leaves the VM as it
  was; the key factory is not called, and the outcome is the same whatever the key factory
  is. The message is the one about the contract ID when the checks made before it pass: a
  non-empty \<open>senderKey\<close> and a non-zero \<open>senderNonce\<close>. Otherwise it is the message of
  the first check that fails: the one about \<open>senderKey\<close> when that is empty, the one
  about \<open>senderNonce\<close> when the key is there and the nonce is zero.
\<close>

theorem empty_contractID_rejected:
  "ContractID a = ids_Empty \<Longrightarrow>
     (InvokeArgs.SenderKey a = [] \<longrightarrow>
        validate a = Some (ErrorsNew ''argument 'senderKey' not provided'') \<and>
        Invoke E vm a =
          (Inl (Errorf ''arguments failed validation: %v''
                  [OpErr (ErrorsNew ''argument 'senderKey' not provided'')]), vm)) \<and>
     (InvokeArgs.SenderKey a \<noteq> [] \<and> InvokeArgs.SenderNonce a = 0 \<longrightarrow>
        validate a = Some (ErrorsNew '''senderNonce' must be at least 1'') \<and>
        Invoke E vm a =
          (Inl (Errorf ''arguments failed validation: %v''
                  [OpErr (ErrorsNew '''senderNonce' must be at least 1'')]), vm)) \<and>
     (InvokeArgs.SenderKey a \<noteq> [] \<and> InvokeArgs.SenderNonce a \<noteq> 0 \<longrightarrow>
        validate a = Some (ErrorsNew ''contractID not specified'') \<and>
        Invoke E vm a =
          (Inl (Errorf ''arguments failed validation: %v''
                  [OpErr (ErrorsNew ''contractID not specified'')]), vm)) \<and>
     (\<exists>e. validate a = Some e \<and>
          Invoke E vm a = (Inl (Errorf ''arguments failed validation: %v'' [OpErr e]), vm)) \<and>
     key_factory_calls (snd (Invoke E vm a)) = key_factory_calls vm \<and>
     Invoke (E\<lparr>ToPrivateKey := kf\<rparr>) vm a = Invoke E vm a"
proof -
  assume c: "ContractID a = ids_Empty"
  note v = validate_empty_contractID [OF c]
  have i: "\<And>E' e. validate a = Some e \<Longrightarrow> Invoke E' vm a =
      (Inl (Errorf ''arguments failed validation: %v'' [OpErr e]), vm)"
    by (rule Invoke_validation_fails)
  show ?thesis
  proof (cases "InvokeArgs.SenderKey a = []")
    case True
    then have "validate a = Some (ErrorsNew ''argument 'senderKey' not provided'')"
      by (simp add: v)
    then show ?thesis using True i by simp
  next
    case False
    show ?thesis
    proof (cases "InvokeArgs.SenderNonce a = 0")
      case True
      then have "validate a = Some (ErrorsNew '''senderNonce' must be at least 1'')"
        using False by (simp add: v)
      then show ?thesis using True False i by simp
    next
      case nz: False
      then have "validate a = Some (ErrorsNew ''contractID not specified'')"
        using False by (simp add: v)
      then show ?thesis using nz False i by simp
    qed
  qed
qed

theorem empty_contractID_rejected_witness:
  "ContractID (invoke_req\<lparr>ContractID := 0\<rparr>) = ids_Empty \<and>
   Invoke stub_env empty_vm (invoke_req\<lparr>ContractID := 0\<rparr>)
     = (Inl (Errorf ''arguments failed validation: %v''
               [OpErr (ErrorsNew ''contractID not specified'')]), empty_vm) \<and>
   Invoke stub_env empty_vm (invoke_req\<lparr>ContractID := 0, InvokeArgs.SenderKey := []\<rparr>)
     = (Inl (Errorf ''arguments failed validation: %v''
               [OpErr (ErrorsNew ''argument 'senderKey' not provided'')]), empty_vm) \<and>
   Invoke stub_env empty_vm (invoke_req\<lparr>ContractID := 0, InvokeArgs.SenderNonce := 0\<rparr>)
     = (Inl (Errorf ''arguments failed validation: %v''
               [OpErr (ErrorsNew '''senderNonce' must be at least 1'')]), empty_vm) \<and>
   key_factory_calls (snd (Invoke stub_env empty_vm (invoke_req\<lparr>ContractID := 0\<rparr>))) = 0"
proof (intro conjI)
  have k: "key32 \<noteq> []" by (simp add: key32_def)
  have z: "key_factory_calls empty_vm = 0"
    by (simp add: key_factory_calls_def empty_vm_def)
  show c: "ContractID (invoke_req\<lparr>ContractID := 0\<rparr>) = ids_Empty"
    by (simp add: ids_Empty_def)
  have c1: "ContractID (invoke_req\<lparr>ContractID := 0, InvokeArgs.SenderKey := []\<rparr>) = ids_Empty"
    by (simp add: ids_Empty_def)
  have c2: "ContractID (invoke_req\<lparr>ContractID := 0, InvokeArgs.SenderNonce := 0\<rparr>) = ids_Empty"
    by (simp add: ids_Empty_def)
  show "Invoke stub_env empty_vm (invoke_req\<lparr>ContractID := 0\<rparr>)
     = (Inl (Errorf ''arguments failed validation: %v''
               [OpErr (ErrorsNew ''contractID not specified'')]), empty_vm)"
    using empty_contractID_rejected [OF c, where E = stub_env and vm = empty_vm
        and kf = "ToPrivateKey stub_env"] k
    by (simp add: invoke_req_def)
  show "Invoke stub_env empty_vm (invoke_req\<lparr>ContractID := 0, InvokeArgs.SenderKey := []\<rparr>)
     = (Inl (Errorf ''arguments failed validation: %v''
               [OpErr (ErrorsNew ''argument 'senderKey' not provided'')]), empty_vm)"
    using empty_contractID_rejected [OF c1, where E = stub_env and vm = empty_vm
        and kf = "ToPrivateKey stub_env"]
    by simp
  show "Invoke stub_env empty_vm (invoke_req\<lparr>ContractID := 0, InvokeArgs.SenderNonce := 0\<rparr>)
     = (Inl (Errorf ''arguments failed validation: %v''
               [OpErr (ErrorsNew '''senderNonce' must be at least 1'')]), empty_vm)"
    using empty_contractID_rejected [OF c2, where E = stub_env and vm = empty_vm
        and kf = "ToPrivateKey stub_env"] k
    by (simp add: invoke_req_def)
  show "key_factory_calls (snd (Invoke stub_env empty_vm (invoke_req\<lparr>ContractID := 0\<rparr>))) = 0"
    using empty_contractID_rejected [OF c, where E = stub_env and vm = empty_vm
        and kf = "ToPrivateKey stub_env"] z
    by simp
qed

text \<open>
  With an empty \<open>contractID\<close> and an empty \<open>senderKey\<close> the message is the one about
  the key; it does not mention the contract ID.
\<close>

theorem empty_contractID_error_counterexample:
  "ContractID (invoke_req\<lparr>ContractID := 0, InvokeArgs.SenderKey := []\<rparr>) = ids_Empty \<and>
   fst (Invoke stub_env empty_vm (invoke_req\<lparr>ContractID := 0, InvokeArgs.SenderKey := []\<rparr>))
     = Inl (Errorf ''arguments failed validation: %v''
              [OpErr (ErrorsNew ''argument 'senderKey' not provided'')]) \<and>
   \<not> mentions (Errorf ''arguments failed validation: %v''
                 [OpErr (ErrorsNew ''argument 'senderKey' not provided'')]) ''contractID''"
  by code_simp

subsection \<open>C7: an empty contract\<close>

text \<open>
  Claim C7. A \<open>CreateContract\<close> request with an empty \<open>contract\<close> fails validation (on
  the \<open>senderKey\<close> when that is empty too, on the \<open>contract\<close> otherwise) and leaves
  the VM as it was. Neither the key factory nor the transaction builder is called, and
  the outcome is the same whatever they are.
\<close>

theorem empty_contract_rejected:
  "Contract c = [] \<Longrightarrow>
     (CreateContract E vm c = (Inl (ErrorsNew ''argument 'senderKey' not given''), vm) \<or>
      CreateContract E vm c = (Inl (ErrorsNew ''argument 'contract' not given''), vm)) \<and>
     (CreateContractArgs.SenderKey c \<noteq> [] \<longrightarrow>
        CreateContract E vm c = (Inl (ErrorsNew ''argument 'contract' not given''), vm)) \<and>
     key_factory_calls (snd (CreateContract E vm c)) = key_factory_calls vm \<and>
     builder_calls (snd (CreateContract E vm c)) = builder_calls vm \<and>
     CreateContract (E\<lparr>ToPrivateKey := kf, newCreateContractTx := b\<rparr>) vm c
       = CreateContract E vm c"
proof -
  assume c: "Contract c = []"
  have "\<And>E'. CreateContract E' vm c =
     (if CreateContractArgs.SenderKey c = []
      then (Inl (ErrorsNew ''argument 'senderKey' not given''), vm)
      else (Inl (ErrorsNew ''argument 'contract' not given''), vm))"
    using c by (simp add: CreateContract_validation)
  then show ?thesis by simp
qed

theorem empty_contract_rejected_witness:
  "Contract (create_req\<lparr>Contract := []\<rparr>) = [] \<and>
   CreateContract stub_env empty_vm (create_req\<lparr>Contract := []\<rparr>)
     = (Inl (ErrorsNew ''argument 'contract' not given''), empty_vm) \<and>
   key_factory_calls (snd (CreateContract stub_env empty_vm (create_req\<lparr>Contract := []\<rparr>))) = 0 \<and>
   builder_calls (snd (CreateContract stub_env empty_vm (create_req\<lparr>Contract := []\<rparr>))) = 0"
proof -
  have c: "Contract (create_req\<lparr>Contract := []\<rparr>) = []" by simp
  have k: "CreateContractArgs.SenderKey (create_req\<lparr>Contract := []\<rparr>) \<noteq> []"
    by (simp add: create_req_def key32_def)
  have z: "key_factory_calls empty_vm = 0" "builder_calls empty_vm = 0"
    by (simp_all add: key_factory_calls_def builder_calls_def empty_vm_def)
  show ?thesis
    using empty_contract_rejected [OF c, where E = stub_env and vm = empty_vm
        and kf = "ToPrivateKey stub_env" and b = "newCreateContractTx stub_env"] k z
    by simp
qed

subsection \<open>C8: a key that does not parse\<close>

text \<open>
  Claim C8, as the code has it. When the key factory rejects the sender-key bytes of a
  request, or returns a key that is not a SECP256K1R key, \<open>Invoke\<close> and
  \<open>CreateContract\<close> fail and admit nothing. When the steps made before key parsing
  succeed (validation, and for \<open>Invoke\<close> argument coercion and byte-argument decoding),
  the error is the key-parse error, for a rejected key and for a key of another scheme
  alike.
\<close>

theorem key_failure_is_fatal:
  "(ToPrivateKey E (InvokeArgs.SenderKey a) = Inl err \<or>
    ToPrivateKey E (InvokeArgs.SenderKey a) = Inr (KeyOther t) \<longrightarrow>
      (\<exists>e. fst (Invoke E vm a) = Inl e) \<and> mempool (snd (Invoke E vm a)) = mempool vm \<and>
      (validate a = None \<and> \<not> isl (toFnArgs E (Args a)) \<and> \<not> isl (getByteArgs E a) \<longrightarrow>
         (\<exists>op. fst (Invoke E vm a) =
            Inl (Errorf ''couldn't parse 'privateKey' to a SECP256K1R private key: %v'' [op])))) \<and>
   (ToPrivateKey E (CreateContractArgs.SenderKey c) = Inl err' \<or>
    ToPrivateKey E (CreateContractArgs.SenderKey c) = Inr (KeyOther t') \<longrightarrow>
      (\<exists>e. fst (CreateContract E vm' c) = Inl e) \<and>
      mempool (snd (CreateContract E vm' c)) = mempool vm' \<and>
      (CreateContractArgs.SenderKey c \<noteq> [] \<and> Contract c \<noteq> [] \<and>
       CreateContractArgs.SenderNonce c \<noteq> 0 \<longrightarrow>
         (\<exists>op. fst (CreateContract E vm' c) =
            Inl (Errorf ''couldn't parse 'senderKey' to a SECP256K1R private key: %v'' [op]))))"
proof (intro conjI impI)
  assume k: "ToPrivateKey E (InvokeArgs.SenderKey a) = Inl err \<or>
    ToPrivateKey E (InvokeArgs.SenderKey a) = Inr (KeyOther t)"
  note n = Invoke_not_admitted [OF key_failure_invoke_steps [OF k], of vm]
  show "\<exists>e. fst (Invoke E vm a) = Inl e" using n by simp
  show "mempool (snd (Invoke E vm a)) = mempool vm" using n by simp
  show "validate a = None \<and> \<not> isl (toFnArgs E (Args a)) \<and> \<not> isl (getByteArgs E a) \<Longrightarrow>
      \<exists>op. fst (Invoke E vm a) =
        Inl (Errorf ''couldn't parse 'privateKey' to a SECP256K1R private key: %v'' [op])"
    using Invoke_key_failure [OF k] by simp
next
  assume k: "ToPrivateKey E (CreateContractArgs.SenderKey c) = Inl err' \<or>
    ToPrivateKey E (CreateContractArgs.SenderKey c) = Inr (KeyOther t')"
  note n = CreateContract_not_admitted [OF key_failure_create_steps [OF k], of vm']
  show "\<exists>e. fst (CreateContract E vm' c) = Inl e" using n by simp
  show "mempool (snd (CreateContract E vm' c)) = mempool vm'" using n by simp
  show "CreateContractArgs.SenderKey c \<noteq> [] \<and> Contract c \<noteq> [] \<and>
       CreateContractArgs.SenderNonce c \<noteq> 0 \<Longrightarrow>
      \<exists>op. fst (CreateContract E vm' c) =
        Inl (Errorf ''couldn't parse 'senderKey' to a SECP256K1R private key: %v'' [op])"
    using CreateContract_key_failure [OF k] by simp
qed

theorem key_failure_is_fatal_witness:
  "(\<exists>op. fst (Invoke stub_env empty_vm (invoke_req\<lparr>InvokeArgs.SenderKey := [1]\<rparr>)) =
      Inl (Errorf ''couldn't parse 'privateKey' to a SECP256K1R private key: %v'' [op])) \<and>
   mempool (snd (Invoke stub_env empty_vm (invoke_req\<lparr>InvokeArgs.SenderKey := [1]\<rparr>))) = [] \<and>
   (\<exists>op. fst (CreateContract (stub_env\<lparr>ToPrivateKey := \<lambda>b. Inr (KeyOther 0)\<rparr>) empty_vm
              create_req) =
      Inl (Errorf ''couldn't parse 'senderKey' to a SECP256K1R private key: %v'' [op])) \<and>
   mempool (snd (CreateContract (stub_env\<lparr>ToPrivateKey := \<lambda>b. Inr (KeyOther 0)\<rparr>) empty_vm
              create_req)) = []"
proof -
  have m: "mempool empty_vm = []" by (simp add: empty_vm_def)
  show ?thesis
    using key_failure_is_fatal [where E = stub_env and vm = empty_vm
        and a = "invoke_req\<lparr>InvokeArgs.SenderKey := [1]\<rparr>"
        and err = "ErrorsNew ''bad key length''" and c = create_req]
      key_failure_is_fatal [where E = "stub_env\<lparr>ToPrivateKey := \<lambda>b. Inr (KeyOther 0)\<rparr>"
        and vm' = empty_vm and a = invoke_req and c = create_req and t' = 0]
      stub_key_rejected stub_prior_ok create_req_valid m
    by simp
qed

text \<open>
  With \<open>senderNonce = 0\<close> and a key the factory rejects, \<open>Invoke\<close> fails at
  validation: the error is about the nonce, not about the key.
\<close>

theorem key_failure_counterexample:
  "ToPrivateKey stub_env
      (InvokeArgs.SenderKey (invoke_req\<lparr>InvokeArgs.SenderKey := [1], InvokeArgs.SenderNonce := 0\<rparr>))
     = Inl (ErrorsNew ''bad key length'') \<and>
   fst (Invoke stub_env empty_vm
          (invoke_req\<lparr>InvokeArgs.SenderKey := [1], InvokeArgs.SenderNonce := 0\<rparr>))
     = Inl (Errorf ''arguments failed validation: %v''
              [OpErr (ErrorsNew '''senderNonce' must be at least 1'')]) \<and>
   \<not> mentions (Errorf ''arguments failed validation: %v''
                 [OpErr (ErrorsNew '''senderNonce' must be at least 1'')]) ''private key''"
  by code_simp

subsection \<open>C9: transaction lookup\<close>

lemma set_foldl_putTx:
  "set (foldl (putTx rid) db rs) = set db \<union> (\<lambda>r. (rid r, r)) ` set rs"
  by (induction rs arbitrary: db) (auto simp add: putTx_def)

lemma set_stored: "set (stored rid rs) = (\<lambda>r. (rid r, r)) ` set rs"
  by (simp add: stored_def set_foldl_putTx)

lemma getTx_never_stored:
  "i \<notin> rid ` set rs \<Longrightarrow> getTx (stored rid rs) i = Inl (ErrorsNew ''not found'')"
proof -
  assume "i \<notin> rid ` set rs"
  then have "i \<notin> fst ` set (stored rid rs)"
    by (auto simp add: set_stored)
  then have "map_of (stored rid rs) i = None"
    by (simp add: map_of_eq_None_iff)
  then show ?thesis by (simp add: getTx_def)
qed

lemma getTx_stored:
  "i \<in> rid ` set rs \<Longrightarrow> \<exists>r. getTx (stored rid rs) i = Inr r \<and> rid r = i \<and> r \<in> set rs"
proof -
  assume "i \<in> rid ` set rs"
  then have "i \<in> fst ` set (stored rid rs)"
    by (force simp add: set_stored)
  then obtain r where r: "map_of (stored rid rs) i = Some r"
    by (cases "map_of (stored rid rs) i") (simp_all add: map_of_eq_None_iff)
  then have "(i, r) \<in> set (stored rid rs)"
    by (rule map_of_SomeD)
  then have "rid r = i \<and> r \<in> set rs"
    by (auto simp add: set_stored)
  then show ?thesis using r by (simp add: getTx_def)
qed

text \<open>
  Claim C9. \<open>GetTx\<close> returns the not-found error with the queried identifier when the
  VM's \<open>getTx\<close> fails, and the receipt \<open>getTx\<close> returns otherwise. On the store of
  the receipts \<open>rs\<close>, a lookup of an identifier that was never stored fails with the
  not-found error, and a lookup of a stored identifier returns a stored receipt whose
  identifier is the queried one.
\<close>

theorem GetTx_lookup:
  "(vm_getTx db i = Inl err \<longrightarrow>
      GetTx vm_getTx db \<lparr>ID = i\<rparr> = Inl (Errorf ''couldn't find tx with ID %s'' [OpID i])) \<and>
   (vm_getTx db i = Inr r \<longrightarrow> GetTx vm_getTx db \<lparr>ID = i\<rparr> = Inr \<lparr>Tx = r\<rparr>) \<and>
   (j \<notin> rid ` set rs \<longrightarrow>
      GetTx getTx (stored rid rs) \<lparr>ID = j\<rparr>
        = Inl (Errorf ''couldn't find tx with ID %s'' [OpID j])) \<and>
   (j \<in> rid ` set rs \<longrightarrow>
      (\<exists>r'. GetTx getTx (stored rid rs) \<lparr>ID = j\<rparr> = Inr \<lparr>Tx = r'\<rparr> \<and> rid r' = j \<and>
            r' \<in> set rs))"
proof (intro conjI impI)
  show "vm_getTx db i = Inl err \<Longrightarrow>
      GetTx vm_getTx db \<lparr>ID = i\<rparr> = Inl (Errorf ''couldn't find tx with ID %s'' [OpID i])"
    by (simp add: GetTx_def)
  show "vm_getTx db i = Inr r \<Longrightarrow> GetTx vm_getTx db \<lparr>ID = i\<rparr> = Inr \<lparr>Tx = r\<rparr>"
    by (simp add: GetTx_def)
  show "j \<notin> rid ` set rs \<Longrightarrow>
      GetTx getTx (stored rid rs) \<lparr>ID = j\<rparr>
        = Inl (Errorf ''couldn't find tx with ID %s'' [OpID j])"
    by (simp add: GetTx_def getTx_never_stored)
  show "j \<in> rid ` set rs \<Longrightarrow>
      \<exists>r'. GetTx getTx (stored rid rs) \<lparr>ID = j\<rparr> = Inr \<lparr>Tx = r'\<rparr> \<and> rid r' = j \<and>
            r' \<in> set rs"
    using getTx_stored [of j rid rs] by (auto simp add: GetTx_def)
qed

theorem GetTx_lookup_witness:
  "GetTx getTx (stored stub_ID [StubCreateContractTx [0] 7 (SECP256K1R key32)]) \<lparr>ID = 8\<rparr>
     = Inl (Errorf ''couldn't find tx with ID %s'' [OpID 8]) \<and>
   GetTx getTx (stored stub_ID [StubCreateContractTx [0] 7 (SECP256K1R key32)]) \<lparr>ID = 7\<rparr>
     = Inr \<lparr>Tx = StubCreateContractTx [0] 7 (SECP256K1R key32)\<rparr> \<and>
   (\<exists>r'. GetTx getTx (stored stub_ID [StubCreateContractTx [0] 7 (SECP256K1R key32)]) \<lparr>ID = 7\<rparr>
            = Inr \<lparr>Tx = r'\<rparr> \<and> stub_ID r' = 7)"
proof -
  have n: "8 \<notin> stub_ID ` set [StubCreateContractTx [0] 7 (SECP256K1R key32)]"
    by simp
  have y: "7 \<in> stub_ID ` set [StubCreateContractTx [0] 7 (SECP256K1R key32)]"
    by simp
  have g8: "getTx (stored stub_ID [StubCreateContractTx [0] 7 (SECP256K1R key32)]) 8
      = Inl (ErrorsNew ''not found'')"
    by (simp add: getTx_def stored_def putTx_def)
  have g7: "getTx (stored stub_ID [StubCreateContractTx [0] 7 (SECP256K1R key32)]) 7
      = Inr (StubCreateContractTx [0] 7 (SECP256K1R key32))"
    by (simp add: getTx_def stored_def putTx_def)
  show ?thesis
    using GetTx_lookup [where rid = stub_ID
        and rs = "[StubCreateContractTx [0] 7 (SECP256K1R key32)]"
        and j = 8 and vm_getTx = getTx
        and db = "stored stub_ID [StubCreateContractTx [0] 7 (SECP256K1R key32)]" and i = 8
        and err = "ErrorsNew ''not found''"
        and r = "StubCreateContractTx [0] 7 (SECP256K1R key32)"]
      GetTx_lookup [where rid = stub_ID
        and rs = "[StubCreateContractTx [0] 7 (SECP256K1R key32)]"
        and j = 7 and vm_getTx = getTx
        and db = "stored stub_ID [StubCreateContractTx [0] 7 (SECP256K1R key32)]" and i = 7
        and err = "ErrorsNew ''not found''"
        and r = "StubCreateContractTx [0] 7 (SECP256K1R key32)"]
      n y g8 g7
    by blast
qed

end
